theory Spec2Isabelle
  imports Main
begin

section \<open>The Cork: HTTP cloud functions (credential check, label analysis, image search, health)\<close>

text \<open>
  The server-side part of \<^verbatim>\<open>src/config.js\<close> (from \<^verbatim>\<open>const functions = require(...)\<close> on)
  is embedded here. The first part of the file, the static \<^verbatim>\<open>CONFIG\<close> record of the client
  application, holds no behaviour.

  JavaScript strings are modelled as \<^typ>\<open>string\<close>. The only non-ASCII text of the source,
  the last letter of the wine category in line 205, is written as its two UTF-8 bytes; the
  source only compares and concatenates it, which no injective encoding changes, and the
  ASCII braces of the regular expression in line 144 never occur inside a multi-byte
  character.
\<close>

subsection \<open>JavaScript values and string primitives\<close>

datatype json =
    JNull
  | JBool bool
  | JNum int
  | JStr string
  | JArr "json list"
  | JObj "(string \<times> json) list"

text \<open>
  Configuration values and body fields are strings or absent (\<^verbatim>\<open>undefined\<close>). JavaScript
  truthiness of such a value: \<^verbatim>\<open>undefined\<close> and the empty string are falsy.
\<close>

definition truthy :: "string option \<Rightarrow> bool" where
  "truthy v = (case v of None \<Rightarrow> False | Some s \<Rightarrow> s \<noteq> [])"

text \<open>\<^verbatim>\<open>s.startsWith(p)\<close>\<close>

definition startsWith :: "string \<Rightarrow> string \<Rightarrow> bool" where
  "startsWith s p = (take (length p) s = p)"

text \<open>
  \<^verbatim>\<open>s.split(sep)\<close> for a string separator: the pieces between the successive
  non-overlapping occurrences of \<^verbatim>\<open>sep\<close>, found from the left; an empty separator splits
  into single code units. \<open>split_from sep cur s\<close> scans \<open>s\<close> with \<open>cur\<close> the piece
  collected so far.
\<close>

function split_from :: "string \<Rightarrow> string \<Rightarrow> string \<Rightarrow> string list" where
  "split_from sep cur [] = [cur]"
| "split_from sep cur (c # cs) =
     (if sep \<noteq> [] \<and> startsWith (c # cs) sep
      then cur # split_from sep [] (drop (length sep) (c # cs))
      else split_from sep (cur @ [c]) cs)"
  by pat_completeness auto
termination
  by (relation "measure (\<lambda>(sep, cur, s). length s)") auto

definition split_sep :: "string \<Rightarrow> string \<Rightarrow> string list" where
  "split_sep s sep = (if sep = [] then map (\<lambda>c. [c]) s else split_from sep [] s)"

text \<open>\<^verbatim>\<open>xs[i]\<close>: \<^verbatim>\<open>undefined\<close> out of range.\<close>

definition index :: "'a list \<Rightarrow> nat \<Rightarrow> 'a option" where
  "index xs i = (if i < length xs then Some (xs ! i) else None)"

subsection \<open>The regular expression of line 144\<close>

text \<open>
  \<^verbatim>\<open>content.match(/\{[\s\S]*\}/)\<close>, as a backtracking matcher runs it. The pattern is an
  opening brace, a greedy star over a class that every code unit belongs to, and a
  closing brace. \<open>close_after rest k\<close> is the star having consumed \<open>k\<close> units of \<open>rest\<close>:
  the match succeeds if a closing brace follows, else the star gives one unit back.
  \<open>regex_exec\<close> tries the start positions from the left and returns the matched text
  (\<^verbatim>\<open>jsonMatch[0]\<close>), \<open>None\<close> for \<^verbatim>\<open>null\<close>.
\<close>

definition closes :: "string \<Rightarrow> bool" where
  "closes s = (case s of [] \<Rightarrow> False | c # _ \<Rightarrow> c = CHR ''}'')"

fun close_after :: "string \<Rightarrow> nat \<Rightarrow> string option" where
  "close_after rest 0 = (if closes rest then Some ''}'' else None)"
| "close_after rest (Suc k) =
     (if closes (drop (Suc k) rest) then Some (take (Suc k) rest @ ''}'')
      else close_after rest k)"

fun regex_exec :: "string \<Rightarrow> string option" where
  "regex_exec [] = None"
| "regex_exec (c # cs) =
     (if c = CHR ''{''
      then (case close_after cs (length cs) of
              Some m \<Rightarrow> Some (CHR ''{'' # m)
            | None \<Rightarrow> regex_exec cs)
      else regex_exec cs)"

definition jsonMatch :: "string \<Rightarrow> string option" where
  "jsonMatch content = regex_exec content"

subsection \<open>Requests, responses, configuration and the outside world\<close>

text \<open>
  A request as the handlers read it: \<^verbatim>\<open>req.method\<close> (the field \<open>httpMethod\<close>),
  \<^verbatim>\<open>req.headers.authorization\<close> and the three fields of \<^verbatim>\<open>req.body\<close>. The body fields are
  strings or absent, as the data model of the specification has them; the handlers on a
  body of any JSON values follow the typed ones.
\<close>

record request =
  httpMethod :: string
  authorization :: "string option"
  imageBase64 :: "string option"
  query :: "string option"
  type :: "string option"

datatype body = NoBody | Send string | Json json

record response =
  statusCode :: nat
  headers :: "(string \<times> string) list"
  body :: body

definition new_response :: response where
  "new_response = \<lparr>statusCode = 200, headers = [], body = NoBody\<rparr>"

text \<open>
  \<^verbatim>\<open>res.set\<close>, \<^verbatim>\<open>res.status\<close>, \<^verbatim>\<open>res.send\<close> and \<^verbatim>\<open>res.json\<close>. A response starts with status
  200, which \<^verbatim>\<open>res.json\<close> leaves as it is; the headers are those that the source sets.
\<close>

definition set_header :: "string \<Rightarrow> string \<Rightarrow> response \<Rightarrow> response" where
  "set_header k v res = res\<lparr>headers := headers res @ [(k, v)]\<rparr>"

definition status :: "nat \<Rightarrow> response \<Rightarrow> response" where
  "status n res = res\<lparr>statusCode := n\<rparr>"

definition send :: "string \<Rightarrow> response \<Rightarrow> response" where
  "send s res = res\<lparr>body := Send s\<rparr>"

definition json :: "json \<Rightarrow> response \<Rightarrow> response" where
  "json v res = res\<lparr>body := Json v\<rparr>"

text \<open>The decoded token that the identity service returns: an opaque object.\<close>

datatype principal = Principal string

text \<open>
  What a handler does besides answering: the calls it sends out and the lines it logs, in
  order. A chat completion is recorded with the API key and the image URL (the model
  name, the prompt and the token cap are constants of the source), a fetch with its URL,
  a log line with its label (the logged error object is left out).
\<close>

datatype event =
    VerifyIdToken string
  | ChatCompletion string string
  | Fetch string
  | ConsoleError string

text \<open>
  The process configuration and everything outside the program. \<open>openai_key\<close>,
  \<open>google_apikey\<close> and \<open>google_cx\<close> are \<^verbatim>\<open>functions.config().openai?.key\<close>,
  \<^verbatim>\<open>functions.config().google?.apikey\<close> and \<^verbatim>\<open>functions.config().google?.cx\<close>;
  \<open>verifyIdToken\<close> is the identity service, \<open>chat_completions_create\<close> the model provider
  (called with the API key and the image URL), \<open>fetch_json\<close> the search provider (\<^verbatim>\<open>fetch\<close>
  followed by \<^verbatim>\<open>response.json()\<close>); \<open>JSON_parse\<close> and \<open>encodeURIComponent\<close> are the two
  library functions the handlers call. A service answers \<open>Inl message\<close> when the call throws.
  The model provider's answer is the \<^verbatim>\<open>content\<close> of the first choice, which may be
  \<^verbatim>\<open>null\<close>; the search provider's answer is the \<^verbatim>\<open>link\<close>s of \<^verbatim>\<open>data.items\<close>, absent when
  the reply has no \<^verbatim>\<open>items\<close>. \<open>JSON_parse\<close> answers \<open>None\<close> when \<^verbatim>\<open>JSON.parse\<close> throws.
\<close>

record env =
  openai_key :: "string option"
  google_apikey :: "string option"
  google_cx :: "string option"
  verifyIdToken :: "string \<Rightarrow> string + principal"
  chat_completions_create :: "string \<Rightarrow> string \<Rightarrow> string + string option"
  fetch_json :: "string \<Rightarrow> string + string list option"
  JSON_parse :: "string \<Rightarrow> json option"
  encodeURIComponent :: "string \<Rightarrow> string"

definition getOpenAIKey :: "env \<Rightarrow> string option" where
  "getOpenAIKey e = openai_key e"

definition getGoogleApiKey :: "env \<Rightarrow> string option" where
  "getGoogleApiKey e = google_apikey e"

definition getGoogleCx :: "env \<Rightarrow> string option" where
  "getGoogleCx e = google_cx e"

subsection \<open>Credential verification (lines 42--58)\<close>

text \<open>Line 49: \<^verbatim>\<open>authHeader.split('Bearer ')[1]\<close>.\<close>

definition idToken :: "string \<Rightarrow> string option" where
  "idToken authHeader = index (split_sep authHeader ''Bearer '') 1"

text \<open>
  The result is the decoded token, or \<open>None\<close> for \<^verbatim>\<open>null\<close> after the 401 has been written
  to the response. After the prefix check the split has at least two pieces (lemma
  \<open>idToken_defined\<close> below), so the branch for an \<^verbatim>\<open>undefined\<close> token is never taken;
  the identity library rejects such an argument without calling the service.
\<close>

definition verifyAuth ::
  "env \<Rightarrow> request \<Rightarrow> response \<Rightarrow> principal option \<times> response \<times> event list" where
  "verifyAuth e req res =
     (let authHeader = authorization req in
      if \<not> truthy authHeader \<or> \<not> startsWith (case authHeader of Some h \<Rightarrow> h | None \<Rightarrow> []) ''Bearer ''
      then (None,
            json (JObj [(''error'', JStr ''Unauthorized - No token provided'')]) (status 401 res),
            [])
      else
        (case idToken (case authHeader of Some h \<Rightarrow> h | None \<Rightarrow> []) of
           None \<Rightarrow>
             (None,
              json (JObj [(''error'', JStr ''Unauthorized - Invalid token'')]) (status 401 res),
              [ConsoleError ''Auth error:''])
         | Some tok \<Rightarrow>
             (case verifyIdToken e tok of
                Inr decodedToken \<Rightarrow> (Some decodedToken, res, [VerifyIdToken tok])
              | Inl error \<Rightarrow>
                  (None,
                   json (JObj [(''error'', JStr ''Unauthorized - Invalid token'')]) (status 401 res),
                   [VerifyIdToken tok, ConsoleError ''Auth error:'']))))"

subsection \<open>Label analysis (lines 63--162)\<close>

text \<open>
  Lines 141--154: the inner \<^verbatim>\<open>try\<close>. \<open>None\<close> means that the block threw: \<^verbatim>\<open>content.match\<close>
  on a \<^verbatim>\<open>null\<close> content, or \<^verbatim>\<open>JSON.parse\<close> on the text handed to it.
\<close>

definition wineData :: "env \<Rightarrow> string option \<Rightarrow> json option" where
  "wineData e content =
     (case content of
        None \<Rightarrow> None
      | Some c \<Rightarrow>
          (case jsonMatch c of
             Some m \<Rightarrow> JSON_parse e m
           | None \<Rightarrow> JSON_parse e c))"

text \<open>Line 129: the image as a data URI.\<close>

definition image_url :: "string \<Rightarrow> string" where
  "image_url img = (if startsWith img ''data:'' then img else ''data:image/jpeg;base64,'' @ img)"

text \<open>Lines 89--161: the outer \<^verbatim>\<open>try\<close>, entered with the key, the response and the trace so far.\<close>

definition analyze_try ::
  "env \<Rightarrow> request \<Rightarrow> string \<Rightarrow> response \<Rightarrow> event list \<Rightarrow> response \<times> event list" where
  "analyze_try e req openaiKey res tr =
     (if \<not> truthy (imageBase64 req)
      then (json (JObj [(''error'', JStr ''No image provided'')]) (status 400 res), tr)
      else
        (let url = image_url (case imageBase64 req of Some i \<Rightarrow> i | None \<Rightarrow> []) in
         case chat_completions_create e openaiKey url of
           Inl message \<Rightarrow>
             (json (JObj [(''error'', JStr ''Failed to analyze image''), (''message'', JStr message)])
                (status 500 res),
              tr @ [ChatCompletion openaiKey url, ConsoleError ''OpenAI error:''])
         | Inr content \<Rightarrow>
             (case wineData e content of
                None \<Rightarrow>
                  (json (JObj [(''error'', JStr ''Failed to parse wine data''),
                               (''raw'', case content of Some c \<Rightarrow> JStr c | None \<Rightarrow> JNull)])
                     (status 500 res),
                   tr @ [ChatCompletion openaiKey url, ConsoleError ''JSON parse error:''])
              | Some d \<Rightarrow>
                  (json (JObj [(''success'', JBool True), (''data'', d)]) res,
                   tr @ [ChatCompletion openaiKey url]))))"

definition analyzeWineLabel :: "env \<Rightarrow> request \<Rightarrow> response \<times> event list" where
  "analyzeWineLabel e req =
     (let res = set_header ''Access-Control-Allow-Origin'' ''*'' new_response;
          res = set_header ''Access-Control-Allow-Methods'' ''POST, OPTIONS'' res;
          res = set_header ''Access-Control-Allow-Headers'' ''Content-Type, Authorization'' res
      in
      if httpMethod req = ''OPTIONS'' then (send [] (status 204 res), [])
      else if httpMethod req \<noteq> ''POST''
      then (json (JObj [(''error'', JStr ''Method not allowed'')]) (status 405 res), [])
      else
        (case verifyAuth e req res of
           (None, res, tr) \<Rightarrow> (res, tr)
         | (Some user, res, tr) \<Rightarrow>
             (let openaiKey = getOpenAIKey e in
              if \<not> truthy openaiKey
              then (json (JObj [(''error'', JStr ''OpenAI API not configured'')]) (status 500 res), tr)
              else analyze_try e req (case openaiKey of Some k \<Rightarrow> k | None \<Rightarrow> []) res tr)))"

subsection \<open>Image search (lines 167--225)\<close>

definition rose :: string where
  "rose = ''ros'' @ [CHR 0xC3, CHR 0xA9]"

text \<open>Line 204: \<^verbatim>\<open>type || ''\<close>.\<close>

definition wineType :: "string option \<Rightarrow> string" where
  "wineType t = (if truthy t then (case t of Some s \<Rightarrow> s | None \<Rightarrow> []) else [])"

text \<open>Lines 205--208, in the order of the source.\<close>

definition typeKeyword :: "string \<Rightarrow> string" where
  "typeKeyword wt =
     (if wt = rose then rose @ '' wine''
      else if wt = ''sparkling'' then ''sparkling wine champagne''
      else if wt = ''dessert'' then ''dessert wine''
      else if wt \<noteq> [] then wt @ '' wine''
      else ''wine'')"

text \<open>Line 209.\<close>

definition searchQuery :: "string \<Rightarrow> string option \<Rightarrow> string" where
  "searchQuery q t = q @ '' '' @ typeKeyword (wineType t) @ '' bottle''"

text \<open>Line 210.\<close>

definition search_url :: "env \<Rightarrow> string \<Rightarrow> string \<Rightarrow> string \<Rightarrow> string" where
  "search_url e googleApiKey googleCx sq =
     ''https://www.googleapis.com/customsearch/v1?key='' @ googleApiKey @ ''&cx='' @ googleCx
       @ ''&q='' @ encodeURIComponent e sq @ ''&searchType=image&num=1&imgType=photo''"

text \<open>Lines 196--224: the \<^verbatim>\<open>try\<close>, entered with both credentials.\<close>

definition search_try ::
  "env \<Rightarrow> request \<Rightarrow> string \<Rightarrow> string \<Rightarrow> response \<Rightarrow> event list \<Rightarrow> response \<times> event list" where
  "search_try e req googleApiKey googleCx res tr =
     (if \<not> truthy (query req)
      then (json (JObj [(''error'', JStr ''No search query provided'')]) (status 400 res), tr)
      else
        (let url = search_url e googleApiKey googleCx
                     (searchQuery (case query req of Some q \<Rightarrow> q | None \<Rightarrow> []) (type req)) in
         case fetch_json e url of
           Inl message \<Rightarrow>
             (json (JObj [(''error'', JStr ''Failed to search images''), (''message'', JStr message)])
                (status 500 res),
              tr @ [Fetch url, ConsoleError ''Google search error:''])
         | Inr items \<Rightarrow>
             (case items of
                Some (link # rest) \<Rightarrow>
                  (json (JObj [(''success'', JBool True), (''imageUrl'', JStr link)]) res,
                   tr @ [Fetch url])
              | _ \<Rightarrow>
                  (json (JObj [(''success'', JBool True), (''imageUrl'', JNull),
                               (''message'', JStr ''No images found'')]) res,
                   tr @ [Fetch url]))))"

definition searchWineImage :: "env \<Rightarrow> request \<Rightarrow> response \<times> event list" where
  "searchWineImage e req =
     (let res = set_header ''Access-Control-Allow-Origin'' ''*'' new_response;
          res = set_header ''Access-Control-Allow-Methods'' ''POST, OPTIONS'' res;
          res = set_header ''Access-Control-Allow-Headers'' ''Content-Type, Authorization'' res
      in
      if httpMethod req = ''OPTIONS'' then (send [] (status 204 res), [])
      else if httpMethod req \<noteq> ''POST''
      then (json (JObj [(''error'', JStr ''Method not allowed'')]) (status 405 res), [])
      else
        (case verifyAuth e req res of
           (None, res, tr) \<Rightarrow> (res, tr)
         | (Some user, res, tr) \<Rightarrow>
             (let googleApiKey = getGoogleApiKey e;
                  googleCx = getGoogleCx e in
              if \<not> truthy googleApiKey \<or> \<not> truthy googleCx
              then (json (JObj [(''success'', JBool True), (''imageUrl'', JNull),
                                (''message'', JStr ''Google Image Search not configured'')]) res,
                    tr)
              else search_try e req (case googleApiKey of Some k \<Rightarrow> k | None \<Rightarrow> [])
                     (case googleCx of Some c \<Rightarrow> c | None \<Rightarrow> []) res tr)))"

subsection \<open>Health (lines 230--237)\<close>

definition health :: "env \<Rightarrow> request \<Rightarrow> response \<times> event list" where
  "health e req =
     (let res = set_header ''Access-Control-Allow-Origin'' ''*'' new_response in
      (json (JObj [(''status'', JStr ''ok''),
                   (''openaiConfigured'', JBool (truthy (getOpenAIKey e))),
                   (''googleConfigured'', JBool (truthy (getGoogleApiKey e) \<and> truthy (getGoogleCx e)))])
         res,
       []))"

subsection \<open>The handlers on a body of any JSON values\<close>

text \<open>
  The definitions above read the three body fields as the specification types them,
  strings or absent. The source itself applies truthiness (lines 91, 198, 204, 208), a
  method call (line 129), strict equality (lines 205--207) and template coercion (lines
  208, 209) to whatever value the parsed body holds. The definitions of this subsection
  are the same handlers on such a body; on a body whose fields are strings or absent they
  are the handlers above (lemmas \<open>analyzeWineLabel_json_typed\<close> and
  \<open>searchWineImage_json_typed\<close> below).
\<close>

record json_request =
  json_method :: string
  json_authorization :: "string option"
  json_imageBase64 :: "json option"
  json_query :: "json option"
  json_type :: "json option"

text \<open>
  Truthiness of a parsed JSON value or \<^verbatim>\<open>undefined\<close>: \<^verbatim>\<open>undefined\<close>, \<^verbatim>\<open>null\<close>, \<^verbatim>\<open>false\<close>, zero
  and the empty string are falsy, every array and every object is truthy. A number is
  represented by an integer: the handlers read of a number only whether it is zero, and
  its text is the conversion's.
\<close>

fun truthy_json :: "json option \<Rightarrow> bool" where
  "truthy_json None = False"
| "truthy_json (Some JNull) = False"
| "truthy_json (Some (JBool b)) = b"
| "truthy_json (Some (JNum n)) = (n \<noteq> 0)"
| "truthy_json (Some (JStr s)) = (s \<noteq> [])"
| "truthy_json (Some (JArr xs)) = True"
| "truthy_json (Some (JObj kvs)) = True"

text \<open>
  The two steps of the language runtime that can throw inside the \<^verbatim>\<open>try\<close> of the search
  handler: the conversion of a value that is not a string to a string, as a template
  literal does it, and \<^verbatim>\<open>encodeURIComponent\<close>, which throws on an ill-formed string. Each
  answers \<open>Inl message\<close> when it throws.
\<close>

record runtime =
  ToString :: "json \<Rightarrow> string + string"
  encodeURIComponent_throwing :: "string \<Rightarrow> string + string"

text \<open>A value inside a template literal.\<close>

definition template :: "runtime \<Rightarrow> json \<Rightarrow> string + string" where
  "template rt v = (case v of JStr s \<Rightarrow> Inr s | _ \<Rightarrow> ToString rt v)"

text \<open>The two views of a request.\<close>

definition string_of :: "json option \<Rightarrow> string option" where
  "string_of v = (case v of Some (JStr s) \<Rightarrow> Some s | _ \<Rightarrow> None)"

definition as_request :: "json_request \<Rightarrow> request" where
  "as_request r =
     \<lparr>httpMethod = json_method r, authorization = json_authorization r,
      imageBase64 = string_of (json_imageBase64 r), query = string_of (json_query r),
      type = string_of (json_type r)\<rparr>"

definition as_json :: "request \<Rightarrow> json_request" where
  "as_json req =
     \<lparr>json_method = httpMethod req, json_authorization = authorization req,
      json_imageBase64 = map_option JStr (imageBase64 req), json_query = map_option JStr (query req),
      json_type = map_option JStr (type req)\<rparr>"

text \<open>Lines 96--156: the call of the model provider and the parsing of its reply.\<close>

definition analyze_image ::
  "env \<Rightarrow> string \<Rightarrow> string \<Rightarrow> response \<Rightarrow> event list \<Rightarrow> response \<times> event list" where
  "analyze_image e img openaiKey res tr =
     (let url = image_url img in
      case chat_completions_create e openaiKey url of
        Inl message \<Rightarrow>
          (json (JObj [(''error'', JStr ''Failed to analyze image''), (''message'', JStr message)])
             (status 500 res),
           tr @ [ChatCompletion openaiKey url, ConsoleError ''OpenAI error:''])
      | Inr content \<Rightarrow>
          (case wineData e content of
             None \<Rightarrow>
               (json (JObj [(''error'', JStr ''Failed to parse wine data''),
                            (''raw'', case content of Some c \<Rightarrow> JStr c | None \<Rightarrow> JNull)])
                  (status 500 res),
                tr @ [ChatCompletion openaiKey url, ConsoleError ''JSON parse error:''])
           | Some d \<Rightarrow>
               (json (JObj [(''success'', JBool True), (''data'', d)]) res,
                tr @ [ChatCompletion openaiKey url])))"

text \<open>
  Lines 89--161. A truthy image that is not a string has no \<^verbatim>\<open>startsWith\<close> method: line 129
  throws a \<^verbatim>\<open>TypeError\<close> before the provider is called, and the \<^verbatim>\<open>catch\<close> of line 158 answers
  with its message (the text is the one of the V8 engine).
\<close>

definition startsWith_TypeError :: string where
  "startsWith_TypeError = ''imageBase64.startsWith is not a function''"

definition analyze_try_json ::
  "env \<Rightarrow> json_request \<Rightarrow> string \<Rightarrow> response \<Rightarrow> event list \<Rightarrow> response \<times> event list" where
  "analyze_try_json e req openaiKey res tr =
     (if \<not> truthy_json (json_imageBase64 req)
      then (json (JObj [(''error'', JStr ''No image provided'')]) (status 400 res), tr)
      else
        (case json_imageBase64 req of
           Some (JStr img) \<Rightarrow> analyze_image e img openaiKey res tr
         | _ \<Rightarrow>
             (json (JObj [(''error'', JStr ''Failed to analyze image''),
                          (''message'', JStr startsWith_TypeError)])
                (status 500 res),
              tr @ [ConsoleError ''OpenAI error:''])))"

definition analyzeWineLabel_json :: "env \<Rightarrow> json_request \<Rightarrow> response \<times> event list" where
  "analyzeWineLabel_json e req =
     (let res = set_header ''Access-Control-Allow-Origin'' ''*'' new_response;
          res = set_header ''Access-Control-Allow-Methods'' ''POST, OPTIONS'' res;
          res = set_header ''Access-Control-Allow-Headers'' ''Content-Type, Authorization'' res
      in
      if json_method req = ''OPTIONS'' then (send [] (status 204 res), [])
      else if json_method req \<noteq> ''POST''
      then (json (JObj [(''error'', JStr ''Method not allowed'')]) (status 405 res), [])
      else
        (case verifyAuth e (as_request req) res of
           (None, res, tr) \<Rightarrow> (res, tr)
         | (Some user, res, tr) \<Rightarrow>
             (let openaiKey = getOpenAIKey e in
              if \<not> truthy openaiKey
              then (json (JObj [(''error'', JStr ''OpenAI API not configured'')]) (status 500 res), tr)
              else analyze_try_json e req (case openaiKey of Some k \<Rightarrow> k | None \<Rightarrow> []) res tr)))"

text \<open>Line 204: \<^verbatim>\<open>type || ''\<close>.\<close>

definition wineType_json :: "json option \<Rightarrow> json" where
  "wineType_json t = (if truthy_json t then (case t of Some v \<Rightarrow> v | None \<Rightarrow> JStr []) else JStr [])"

text \<open>Lines 205--208: strict equality with the three names, then the template.\<close>

definition typeKeyword_json :: "runtime \<Rightarrow> json \<Rightarrow> string + string" where
  "typeKeyword_json rt wt =
     (if wt = JStr rose then Inr (rose @ '' wine'')
      else if wt = JStr ''sparkling'' then Inr ''sparkling wine champagne''
      else if wt = JStr ''dessert'' then Inr ''dessert wine''
      else if truthy_json (Some wt)
        then (case template rt wt of Inl message \<Rightarrow> Inl message | Inr s \<Rightarrow> Inr (s @ '' wine''))
      else Inr ''wine'')"

text \<open>Line 209, after lines 204--208.\<close>

definition searchQuery_json :: "runtime \<Rightarrow> json \<Rightarrow> json option \<Rightarrow> string + string" where
  "searchQuery_json rt q t =
     (case typeKeyword_json rt (wineType_json t) of
        Inl message \<Rightarrow> Inl message
      | Inr kw \<Rightarrow>
          (case template rt q of
             Inl message \<Rightarrow> Inl message
           | Inr qs \<Rightarrow> Inr (qs @ '' '' @ kw @ '' bottle'')))"

text \<open>Line 210.\<close>

definition search_url_json :: "runtime \<Rightarrow> string \<Rightarrow> string \<Rightarrow> string \<Rightarrow> string + string" where
  "search_url_json rt googleApiKey googleCx sq =
     (case encodeURIComponent_throwing rt sq of
        Inl message \<Rightarrow> Inl message
      | Inr enc \<Rightarrow>
          Inr (''https://www.googleapis.com/customsearch/v1?key='' @ googleApiKey @ ''&cx='' @ googleCx
                 @ ''&q='' @ enc @ ''&searchType=image&num=1&imgType=photo''))"

text \<open>Lines 212--219, and the \<^verbatim>\<open>catch\<close> of line 221 for a failed fetch.\<close>

definition search_fetch ::
  "env \<Rightarrow> string \<Rightarrow> response \<Rightarrow> event list \<Rightarrow> response \<times> event list" where
  "search_fetch e url res tr =
     (case fetch_json e url of
        Inl message \<Rightarrow>
          (json (JObj [(''error'', JStr ''Failed to search images''), (''message'', JStr message)])
             (status 500 res),
           tr @ [Fetch url, ConsoleError ''Google search error:''])
      | Inr items \<Rightarrow>
          (case items of
             Some (link # rest) \<Rightarrow>
               (json (JObj [(''success'', JBool True), (''imageUrl'', JStr link)]) res,
                tr @ [Fetch url])
           | _ \<Rightarrow>
               (json (JObj [(''success'', JBool True), (''imageUrl'', JNull),
                            (''message'', JStr ''No images found'')]) res,
                tr @ [Fetch url])))"

text \<open>
  Lines 196--224. A conversion or an encoding that throws is caught at line 221 before
  anything is fetched.
\<close>

definition search_try_json ::
  "runtime \<Rightarrow> env \<Rightarrow> json_request \<Rightarrow> string \<Rightarrow> string \<Rightarrow> response \<Rightarrow> event list
     \<Rightarrow> response \<times> event list" where
  "search_try_json rt e req googleApiKey googleCx res tr =
     (if \<not> truthy_json (json_query req)
      then (json (JObj [(''error'', JStr ''No search query provided'')]) (status 400 res), tr)
      else
        (case (case searchQuery_json rt (case json_query req of Some q \<Rightarrow> q | None \<Rightarrow> JNull)
                      (json_type req) of
                 Inl message \<Rightarrow> Inl message
               | Inr sq \<Rightarrow> search_url_json rt googleApiKey googleCx sq) of
           Inl message \<Rightarrow>
             (json (JObj [(''error'', JStr ''Failed to search images''), (''message'', JStr message)])
                (status 500 res),
              tr @ [ConsoleError ''Google search error:''])
         | Inr url \<Rightarrow> search_fetch e url res tr))"

definition searchWineImage_json ::
  "runtime \<Rightarrow> env \<Rightarrow> json_request \<Rightarrow> response \<times> event list" where
  "searchWineImage_json rt e req =
     (let res = set_header ''Access-Control-Allow-Origin'' ''*'' new_response;
          res = set_header ''Access-Control-Allow-Methods'' ''POST, OPTIONS'' res;
          res = set_header ''Access-Control-Allow-Headers'' ''Content-Type, Authorization'' res
      in
      if json_method req = ''OPTIONS'' then (send [] (status 204 res), [])
      else if json_method req \<noteq> ''POST''
      then (json (JObj [(''error'', JStr ''Method not allowed'')]) (status 405 res), [])
      else
        (case verifyAuth e (as_request req) res of
           (None, res, tr) \<Rightarrow> (res, tr)
         | (Some user, res, tr) \<Rightarrow>
             (let googleApiKey = getGoogleApiKey e;
                  googleCx = getGoogleCx e in
              if \<not> truthy googleApiKey \<or> \<not> truthy googleCx
              then (json (JObj [(''success'', JBool True), (''imageUrl'', JNull),
                                (''message'', JStr ''Google Image Search not configured'')]) res,
                    tr)
              else search_try_json rt e req (case googleApiKey of Some k \<Rightarrow> k | None \<Rightarrow> [])
                     (case googleCx of Some c \<Rightarrow> c | None \<Rightarrow> []) res tr)))"

subsection \<open>Vocabulary of the specification\<close>

text \<open>An upstream API call: a request to the model provider or to the search provider.\<close>

fun upstream :: "event \<Rightarrow> bool" where
  "upstream (ChatCompletion k u) = True"
| "upstream (Fetch u) = True"
| "upstream (VerifyIdToken t) = False"
| "upstream (ConsoleError l) = False"

text \<open>The three CORS headers of lines 65--67 and 169--171.\<close>

definition cors_headers :: "(string \<times> string) list" where
  "cors_headers =
     [(''Access-Control-Allow-Origin'', ''*''),
      (''Access-Control-Allow-Methods'', ''POST, OPTIONS''),
      (''Access-Control-Allow-Headers'', ''Content-Type, Authorization'')]"

text \<open>A request's bearer token: what line 49 extracts once the check of line 44 has passed.\<close>

definition bearer_token :: "request \<Rightarrow> string option" where
  "bearer_token req =
     (case authorization req of
        None \<Rightarrow> None
      | Some h \<Rightarrow> if startsWith h ''Bearer '' then idToken h else None)"

text \<open>A response of a protected endpoint: the three CORS headers, a status and a body.\<close>

definition reply :: "nat \<Rightarrow> body \<Rightarrow> response" where
  "reply n b = \<lparr>statusCode = n, headers = cors_headers, body = b\<rparr>"

text \<open>
  Positions in a reply, for the claim about the span of the brace match: the index of the
  first opening brace, the index of the last closing brace, and \<^verbatim>\<open>s.substring(i, j)\<close> for
  \<open>i \<le> j\<close>.
\<close>

definition first_open :: "string \<Rightarrow> nat" where
  "first_open s = length (takeWhile (\<lambda>c. c \<noteq> CHR ''{'') s)"

definition last_close :: "string \<Rightarrow> nat" where
  "last_close s = length s - 1 - length (takeWhile (\<lambda>c. c \<noteq> CHR ''}'') (rev s))"

definition substring :: "string \<Rightarrow> nat \<Rightarrow> nat \<Rightarrow> string" where
  "substring s i j = take (j - i) (drop i s)"

text \<open>\<^verbatim>\<open>s.includes(sub)\<close>: \<open>sub\<close> occurs in \<open>s\<close>.\<close>

fun includes_str :: "string \<Rightarrow> string \<Rightarrow> bool" where
  "includes_str [] sub = (sub = [])"
| "includes_str (c # cs) sub = (startsWith (c # cs) sub \<or> includes_str cs sub)"

subsection \<open>Sample inputs\<close>

text \<open>
  A configured deployment whose identity service accepts one token, whose model provider
  answers with an object wrapped in prose, and whose search provider finds one image. The
  parser knows the one object of the model's answer; the encoder escapes blanks.
\<close>

definition sample_object :: string where
  "sample_object = ''{'' @ [CHR 0x22] @ ''year'' @ [CHR 0x22] @ '':2015}''"

definition sample_env :: env where
  "sample_env =
     \<lparr>openai_key = Some ''sk-test'',
      google_apikey = Some ''AIza-test'',
      google_cx = Some ''cx-test'',
      verifyIdToken = (\<lambda>t. if t = ''good'' then Inr (Principal ''uid-1'') else Inl ''invalid token''),
      chat_completions_create = (\<lambda>k u. Inr (Some (''Here is the result: '' @ sample_object @ '' enjoy''))),
      fetch_json = (\<lambda>u. Inr (Some [''https://example.com/bottle.jpg''])),
      JSON_parse = (\<lambda>s. if s = sample_object then Some (JObj [(''year'', JNum 2015)]) else None),
      encodeURIComponent = (\<lambda>s. concat (map (\<lambda>c. if c = CHR '' '' then ''%20'' else [c]) s))\<rparr>"

definition preflight :: request where
  "preflight =
     \<lparr>httpMethod = ''OPTIONS'', authorization = None, imageBase64 = None, query = None, type = None\<rparr>"

definition label_request :: request where
  "label_request =
     \<lparr>httpMethod = ''POST'', authorization = Some ''Bearer good'', imageBase64 = Some ''aGVsbG8='',
      query = None, type = None\<rparr>"

definition search_request :: request where
  "search_request =
     \<lparr>httpMethod = ''POST'', authorization = Some ''Bearer good'', imageBase64 = None,
      query = Some ''Chateau X'', type = Some ''red''\<rparr>"

text \<open>
  Two deployments whose upstream services fail. They differ in all three secrets and in
  the principal that the identity service returns; the services answer alike.
\<close>

definition failing_env :: env where
  "failing_env =
     sample_env
       \<lparr>chat_completions_create := (\<lambda>k u. Inl ''429 quota exceeded''),
        fetch_json := (\<lambda>u. Inl ''fetch failed'')\<rparr>"

definition other_failing_env :: env where
  "other_failing_env =
     failing_env
       \<lparr>openai_key := Some ''sk-other'',
        google_apikey := Some ''AIza-other'',
        google_cx := Some ''cx-other'',
        verifyIdToken := (\<lambda>t. if t = ''good'' then Inr (Principal ''uid-2'') else Inl ''invalid token'')\<rparr>"

text \<open>A deployment whose model provider answers with text that holds no JSON.\<close>

definition confused_env :: env where
  "confused_env =
     sample_env\<lparr>chat_completions_create := (\<lambda>k u. Inr (Some ''Sorry, {unreadable} label''))\<rparr>"

text \<open>
  A deployment whose model provider rejects the configured key and names it in the text
  of its error.
\<close>

definition leaky_env :: env where
  "leaky_env =
     sample_env\<lparr>chat_completions_create := (\<lambda>k u. Inl (''401 Incorrect API key provided: '' @ k))\<rparr>"

text \<open>
  A runtime that converts \<^verbatim>\<open>null\<close> and booleans and refuses everything else, and encodes
  as the sample deployment does; a request whose image is a number, and one whose query is
  an object that cannot be converted.
\<close>

definition sample_runtime :: runtime where
  "sample_runtime =
     \<lparr>ToString = (\<lambda>v. case v of
                      JNull \<Rightarrow> Inr ''null''
                    | JBool b \<Rightarrow> Inr (if b then ''true'' else ''false'')
                    | _ \<Rightarrow> Inl ''Cannot convert object to primitive value''),
      encodeURIComponent_throwing = (\<lambda>s. Inr (encodeURIComponent sample_env s))\<rparr>"

definition number_image_request :: json_request where
  "number_image_request = (as_json label_request)\<lparr>json_imageBase64 := Some (JNum 5)\<rparr>"

definition object_query_request :: json_request where
  "object_query_request = (as_json search_request)\<lparr>json_query := Some (JObj [(''toString'', JNum 1)])\<rparr>"

text \<open>A deployment whose model provider adds text with a closing brace after the object.\<close>

definition trailing_env :: env where
  "trailing_env =
     sample_env\<lparr>chat_completions_create := (\<lambda>k u. Inr (Some ''Sure: {a} and } more''))\<rparr>"

section \<open>Properties\<close>

subsection \<open>Splitting the header\<close>

lemma split_from_nonempty: "split_from sep cur s \<noteq> []"
  by (induction sep cur s rule: split_from.induct) auto

lemma split_from_prefix:
  assumes "sep \<noteq> []" and "startsWith s sep"
  shows "split_from sep cur s = cur # split_from sep [] (drop (length sep) s)"
proof (cases s)
  case Nil
  with assms show ?thesis by (simp add: startsWith_def)
next
  case (Cons c cs)
  with assms show ?thesis by simp
qed

lemma idToken_defined:
  assumes "startsWith h ''Bearer ''"
  shows "\<exists>t. idToken h = Some t"
proof -
  have "split_from ''Bearer '' [] h = [] # split_from ''Bearer '' [] (drop (length ''Bearer '') h)"
    using assms by (intro split_from_prefix) simp_all
  moreover obtain x xs where "split_from ''Bearer '' [] (drop (length ''Bearer '') h) = x # xs"
    using split_from_nonempty by (cases "split_from ''Bearer '' [] (drop (length ''Bearer '') h)") auto
  ultimately show ?thesis
    by (simp add: idToken_def index_def split_sep_def)
qed

lemma idToken_Bearer_only: "idToken ''Bearer '' = Some []"
  by (simp add: idToken_def index_def split_sep_def startsWith_def)

subsection \<open>The brace match\<close>

lemma not_closes: "CHR ''}'' \<notin> set rest \<Longrightarrow> \<not> closes (drop k rest)"
proof (cases "drop k rest")
  case Nil
  then show ?thesis by (simp add: closes_def)
next
  case (Cons c cs)
  assume a: "CHR ''}'' \<notin> set rest"
  from Cons have "c \<in> set (drop k rest)" by simp
  then have "c \<in> set rest" by (rule in_set_dropD)
  with a have "c \<noteq> CHR ''}''" by blast
  then show ?thesis unfolding closes_def Cons by simp
qed

lemma close_after_none: "CHR ''}'' \<notin> set rest \<Longrightarrow> close_after rest k = None"
proof (induction k)
  case 0
  from not_closes [OF 0, of 0] show ?case by simp
next
  case (Suc k)
  from not_closes [OF Suc.prems, of "Suc k"] Suc.IH [OF Suc.prems] show ?case by simp
qed

lemma close_after_last:
  "CHR ''}'' \<notin> set post \<Longrightarrow> length mid \<le> k \<Longrightarrow>
   close_after (mid @ CHR ''}'' # post) k = Some (mid @ ''}'')"
proof (induction k)
  case 0
  then show ?case by (simp add: closes_def)
next
  case (Suc k)
  show ?case
  proof (cases "length mid = Suc k")
    case True
    then show ?thesis by (simp add: closes_def)
  next
    case False
    with Suc.prems have le: "length mid \<le> k" by simp
    then have "drop (Suc k) (mid @ CHR ''}'' # post) = drop (k - length mid) post"
      by (simp add: Suc_diff_le)
    with not_closes [OF Suc.prems(1), of "k - length mid"]
    have "\<not> closes (drop (Suc k) (mid @ CHR ''}'' # post))" by simp
    with Suc.IH [OF Suc.prems(1) le] show ?thesis by simp
  qed
qed

lemma regex_exec_skip: "CHR ''{'' \<notin> set pre \<Longrightarrow> regex_exec (pre @ s) = regex_exec s"
  by (induction pre) auto

lemma regex_exec_none: "CHR ''}'' \<notin> set s \<Longrightarrow> regex_exec s = None"
  by (induction s) (auto simp: close_after_none)

lemma regex_exec_span:
  assumes "CHR ''{'' \<notin> set pre" and "CHR ''}'' \<notin> set post"
  shows "regex_exec (pre @ CHR ''{'' # mid @ CHR ''}'' # post) = Some (CHR ''{'' # mid @ ''}'')"
proof -
  have "close_after (mid @ CHR ''}'' # post) (length (mid @ CHR ''}'' # post)) = Some (mid @ ''}'')"
    using assms(2) by (intro close_after_last) auto
  then have "regex_exec (CHR ''{'' # mid @ CHR ''}'' # post) = Some (CHR ''{'' # mid @ ''}'')"
    by simp
  with regex_exec_skip [OF assms(1)] show ?thesis by simp
qed

lemma first_split_tail:
  "x \<notin> set pre \<Longrightarrow> pre @ x # rest = pre' @ x # tail \<Longrightarrow> \<exists>us. rest = us @ tail"
proof (induction pre arbitrary: pre')
  case Nil
  then show ?case by (cases pre') auto
next
  case (Cons a pre)
  then show ?case by (cases pre') auto
qed

lemma regex_exec_cases:
  "(regex_exec s = None \<and> \<not> (\<exists>pre mid post. s = pre @ CHR ''{'' # mid @ CHR ''}'' # post)) \<or>
   (\<exists>pre mid post. s = pre @ CHR ''{'' # mid @ CHR ''}'' # post \<and> CHR ''{'' \<notin> set pre \<and>
      CHR ''}'' \<notin> set post \<and> regex_exec s = Some (CHR ''{'' # mid @ ''}''))"
proof (cases "CHR ''{'' \<in> set s")
  case False
  from regex_exec_skip [OF False, of "[]"] have "regex_exec s = None" by simp
  moreover have "\<not> (\<exists>pre mid post. s = pre @ CHR ''{'' # mid @ CHR ''}'' # post)"
  proof
    assume "\<exists>pre mid post. s = pre @ CHR ''{'' # mid @ CHR ''}'' # post"
    then obtain pre mid post where "s = pre @ CHR ''{'' # mid @ CHR ''}'' # post" by blast
    then have "CHR ''{'' \<in> set s" by simp
    with False show False by contradiction
  qed
  ultimately show ?thesis by (intro disjI1 conjI)
next
  case True
  from split_list_first [OF True]
  obtain pre rest where s: "s = pre @ CHR ''{'' # rest" and pre: "CHR ''{'' \<notin> set pre"
    by blast
  show ?thesis
  proof (cases "CHR ''}'' \<in> set rest")
    case True
    from split_list_last [OF True]
    obtain mid post where rest: "rest = mid @ CHR ''}'' # post" and post: "CHR ''}'' \<notin> set post"
      by blast
    have "s = pre @ CHR ''{'' # mid @ CHR ''}'' # post" by (simp only: s rest)
    moreover from this have "regex_exec s = Some (CHR ''{'' # mid @ ''}'')"
      by (simp only: regex_exec_span [OF pre post])
    ultimately show ?thesis using pre post by (intro disjI2 exI conjI)
  next
    case False
    note no_close = close_after_none [OF False, of "length rest"] regex_exec_none [OF False]
    have "regex_exec (CHR ''{'' # rest) = None" by (simp add: no_close)
    with regex_exec_skip [OF pre, of "CHR ''{'' # rest"] have "regex_exec s = None"
      by (simp only: s)
    moreover have "\<not> (\<exists>pre' mid post. s = pre' @ CHR ''{'' # mid @ CHR ''}'' # post)"
    proof
      assume "\<exists>pre' mid post. s = pre' @ CHR ''{'' # mid @ CHR ''}'' # post"
      then obtain pre' mid post where "s = pre' @ CHR ''{'' # mid @ CHR ''}'' # post" by blast
      with s have e: "pre @ CHR ''{'' # rest = pre' @ CHR ''{'' # mid @ CHR ''}'' # post"
        by (simp only:)
      from first_split_tail [OF pre e] obtain us where "rest = us @ mid @ CHR ''}'' # post"
        by blast
      then have "CHR ''}'' \<in> set rest" by simp
      with False show False by contradiction
    qed
    ultimately show ?thesis by (intro disjI1 conjI)
  qed
qed

subsection \<open>The handlers, branch by branch\<close>

lemma cors_preamble:
  "set_header ''Access-Control-Allow-Headers'' ''Content-Type, Authorization''
     (set_header ''Access-Control-Allow-Methods'' ''POST, OPTIONS''
        (set_header ''Access-Control-Allow-Origin'' ''*'' new_response)) = reply 200 NoBody"
  by (simp add: set_header_def new_response_def reply_def cors_headers_def)

lemma json_status_reply: "json v (status n (reply m b)) = reply n (Json v)"
  by (simp add: json_def status_def reply_def)

lemma json_reply: "json v (reply m b) = reply m (Json v)"
  by (simp add: json_def reply_def)

lemma send_status_reply: "send s (status n (reply m b)) = reply n (Send s)"
  by (simp add: send_def status_def reply_def)

lemma verifyAuth_no_token:
  assumes "authorization req = None \<or> (\<exists>h. authorization req = Some h \<and> \<not> startsWith h ''Bearer '')"
  shows "verifyAuth e req res =
           (None, json (JObj [(''error'', JStr ''Unauthorized - No token provided'')]) (status 401 res), [])"
  using assms by (auto simp: verifyAuth_def Let_def truthy_def)

lemma bearer_token_Some:
  assumes "bearer_token req = Some t"
  obtains h where "authorization req = Some h" and "startsWith h ''Bearer ''" and "idToken h = Some t"
  using assms by (auto simp: bearer_token_def split: option.splits if_splits)

lemma bearer_token_None:
  "bearer_token req = None \<longleftrightarrow>
     (authorization req = None \<or> (\<exists>h. authorization req = Some h \<and> \<not> startsWith h ''Bearer ''))"
  using idToken_defined by (auto simp: bearer_token_def split: option.splits)

lemma startsWith_nonempty: "startsWith h ''Bearer '' \<Longrightarrow> h \<noteq> []"
  by (auto simp: startsWith_def)

lemma verifyAuth_token:
  assumes "bearer_token req = Some t"
  shows "verifyAuth e req res =
           (case verifyIdToken e t of
              Inr p \<Rightarrow> (Some p, res, [VerifyIdToken t])
            | Inl err \<Rightarrow>
                (None, json (JObj [(''error'', JStr ''Unauthorized - Invalid token'')]) (status 401 res),
                 [VerifyIdToken t, ConsoleError ''Auth error:'']))"
proof -
  from assms obtain h where h: "authorization req = Some h" "startsWith h ''Bearer ''" "idToken h = Some t"
    by (rule bearer_token_Some)
  from h(2) have "h \<noteq> []" by (rule startsWith_nonempty)
  with h show ?thesis
    by (simp add: verifyAuth_def Let_def truthy_def split: sum.splits)
qed

lemma analyzeWineLabel_options:
  "httpMethod req = ''OPTIONS'' \<Longrightarrow> analyzeWineLabel e req = (reply 204 (Send []), [])"
  by (simp add: analyzeWineLabel_def Let_def cors_preamble send_status_reply)

lemma searchWineImage_options:
  "httpMethod req = ''OPTIONS'' \<Longrightarrow> searchWineImage e req = (reply 204 (Send []), [])"
  by (simp add: searchWineImage_def Let_def cors_preamble send_status_reply)

lemma analyzeWineLabel_post:
  assumes "httpMethod req = ''POST''"
  shows "analyzeWineLabel e req =
           (case verifyAuth e req (reply 200 NoBody) of
              (None, res, tr) \<Rightarrow> (res, tr)
            | (Some user, res, tr) \<Rightarrow>
                (if \<not> truthy (openai_key e)
                 then (json (JObj [(''error'', JStr ''OpenAI API not configured'')]) (status 500 res), tr)
                 else analyze_try e req (case openai_key e of Some k \<Rightarrow> k | None \<Rightarrow> []) res tr))"
  using assms
  by (simp add: analyzeWineLabel_def Let_def cors_preamble getOpenAIKey_def
        split: prod.splits option.splits)

lemma searchWineImage_post:
  assumes "httpMethod req = ''POST''"
  shows "searchWineImage e req =
           (case verifyAuth e req (reply 200 NoBody) of
              (None, res, tr) \<Rightarrow> (res, tr)
            | (Some user, res, tr) \<Rightarrow>
                (if \<not> truthy (google_apikey e) \<or> \<not> truthy (google_cx e)
                 then (json (JObj [(''success'', JBool True), (''imageUrl'', JNull),
                                   (''message'', JStr ''Google Image Search not configured'')]) res, tr)
                 else search_try e req (case google_apikey e of Some k \<Rightarrow> k | None \<Rightarrow> [])
                        (case google_cx e of Some c \<Rightarrow> c | None \<Rightarrow> []) res tr))"
  using assms
  by (simp add: searchWineImage_def Let_def cors_preamble getGoogleApiKey_def getGoogleCx_def
        split: prod.splits option.splits)

lemma analyzeWineLabel_no_token:
  assumes "httpMethod req = ''POST''" and "bearer_token req = None"
  shows "analyzeWineLabel e req =
           (reply 401 (Json (JObj [(''error'', JStr ''Unauthorized - No token provided'')])), [])"
  using assms(2)
  by (simp add: analyzeWineLabel_post [OF assms(1)] bearer_token_None verifyAuth_no_token json_status_reply)

lemma searchWineImage_no_token:
  assumes "httpMethod req = ''POST''" and "bearer_token req = None"
  shows "searchWineImage e req =
           (reply 401 (Json (JObj [(''error'', JStr ''Unauthorized - No token provided'')])), [])"
  using assms(2)
  by (simp add: searchWineImage_post [OF assms(1)] bearer_token_None verifyAuth_no_token json_status_reply)

lemma analyzeWineLabel_rejected:
  assumes "httpMethod req = ''POST''" and "bearer_token req = Some t" and "verifyIdToken e t = Inl err"
  shows "analyzeWineLabel e req =
           (reply 401 (Json (JObj [(''error'', JStr ''Unauthorized - Invalid token'')])),
            [VerifyIdToken t, ConsoleError ''Auth error:''])"
  by (simp add: analyzeWineLabel_post [OF assms(1)] verifyAuth_token [OF assms(2)] assms(3) json_status_reply)

lemma searchWineImage_rejected:
  assumes "httpMethod req = ''POST''" and "bearer_token req = Some t" and "verifyIdToken e t = Inl err"
  shows "searchWineImage e req =
           (reply 401 (Json (JObj [(''error'', JStr ''Unauthorized - Invalid token'')])),
            [VerifyIdToken t, ConsoleError ''Auth error:''])"
  by (simp add: searchWineImage_post [OF assms(1)] verifyAuth_token [OF assms(2)] assms(3) json_status_reply)

lemma analyzeWineLabel_accepted:
  assumes "httpMethod req = ''POST''" and "bearer_token req = Some t" and "verifyIdToken e t = Inr p"
  shows "analyzeWineLabel e req =
           (if \<not> truthy (openai_key e)
            then (reply 500 (Json (JObj [(''error'', JStr ''OpenAI API not configured'')])), [VerifyIdToken t])
            else analyze_try e req (case openai_key e of Some k \<Rightarrow> k | None \<Rightarrow> [])
                   (reply 200 NoBody) [VerifyIdToken t])"
  by (simp add: analyzeWineLabel_post [OF assms(1)] verifyAuth_token [OF assms(2)] assms(3) json_status_reply)

lemma searchWineImage_accepted:
  assumes "httpMethod req = ''POST''" and "bearer_token req = Some t" and "verifyIdToken e t = Inr p"
  shows "searchWineImage e req =
           (if \<not> truthy (google_apikey e) \<or> \<not> truthy (google_cx e)
            then (reply 200 (Json (JObj [(''success'', JBool True), (''imageUrl'', JNull),
                                   (''message'', JStr ''Google Image Search not configured'')])),
                  [VerifyIdToken t])
            else search_try e req (case google_apikey e of Some k \<Rightarrow> k | None \<Rightarrow> [])
                   (case google_cx e of Some c \<Rightarrow> c | None \<Rightarrow> []) (reply 200 NoBody) [VerifyIdToken t])"
  by (simp add: searchWineImage_post [OF assms(1)] verifyAuth_token [OF assms(2)] assms(3) json_reply)

lemma truthy_Some: "truthy (Some s) = (s \<noteq> [])"
  by (simp add: truthy_def)

lemma truthy_obtain:
  assumes "truthy v"
  obtains s where "v = Some s" and "s \<noteq> []"
  using assms by (cases v) (auto simp: truthy_def)

lemma analyzeWineLabel_other:
  "httpMethod req \<noteq> ''OPTIONS'' \<Longrightarrow> httpMethod req \<noteq> ''POST'' \<Longrightarrow>
   analyzeWineLabel e req = (reply 405 (Json (JObj [(''error'', JStr ''Method not allowed'')])), [])"
  by (simp add: analyzeWineLabel_def Let_def cors_preamble json_status_reply)

lemma searchWineImage_other:
  "httpMethod req \<noteq> ''OPTIONS'' \<Longrightarrow> httpMethod req \<noteq> ''POST'' \<Longrightarrow>
   searchWineImage e req = (reply 405 (Json (JObj [(''error'', JStr ''Method not allowed'')])), [])"
  by (simp add: searchWineImage_def Let_def cors_preamble json_status_reply)


lemma analyze_try_parse_failure:
  assumes "imageBase64 req = Some img" and "img \<noteq> []"
    and "chat_completions_create e k (image_url img) = Inr content"
    and "wineData e content = None"
  shows "analyze_try e req k res tr =
           (json (JObj [(''error'', JStr ''Failed to parse wine data''),
                        (''raw'', case content of Some c \<Rightarrow> JStr c | None \<Rightarrow> JNull)]) (status 500 res),
            tr @ [ChatCompletion k (image_url img), ConsoleError ''JSON parse error:''])"
  using assms by (simp add: analyze_try_def Let_def truthy_Some)

lemma analyze_try_success:
  assumes "imageBase64 req = Some img" and "img \<noteq> []"
    and "chat_completions_create e k (image_url img) = Inr content"
    and "wineData e content = Some d"
  shows "analyze_try e req k res tr =
           (json (JObj [(''success'', JBool True), (''data'', d)]) res,
            tr @ [ChatCompletion k (image_url img)])"
  using assms by (simp add: analyze_try_def Let_def truthy_Some)

subsection \<open>The brace match, by positions\<close>

lemma jsonMatch_span:
  assumes "CHR ''{'' \<notin> set pre" and "CHR ''}'' \<notin> set post"
  shows "jsonMatch (pre @ CHR ''{'' # mid @ CHR ''}'' # post) = Some (CHR ''{'' # mid @ ''}'')"
  unfolding jsonMatch_def using assms by (rule regex_exec_span)

lemma jsonMatch_cases:
  "(jsonMatch s = None \<and> \<not> (\<exists>pre mid post. s = pre @ CHR ''{'' # mid @ CHR ''}'' # post)) \<or>
   (\<exists>pre mid post. s = pre @ CHR ''{'' # mid @ CHR ''}'' # post \<and> CHR ''{'' \<notin> set pre \<and>
      CHR ''}'' \<notin> set post \<and> jsonMatch s = Some (CHR ''{'' # mid @ ''}''))"
  unfolding jsonMatch_def by (rule regex_exec_cases)

lemma span_positions:
  assumes "CHR ''{'' \<notin> set pre" and "CHR ''}'' \<notin> set post"
    and s: "s = pre @ CHR ''{'' # mid @ CHR ''}'' # post"
  shows "substring s (first_open s) (last_close s + 1) = CHR ''{'' # mid @ ''}''"
proof -
  have "takeWhile (\<lambda>c. c \<noteq> CHR ''{'') s = pre"
    using assms(1) unfolding s by (subst takeWhile_append2) auto
  then have f: "first_open s = length pre" by (simp add: first_open_def)
  have r: "rev s = rev post @ CHR ''}'' # (rev mid @ CHR ''{'' # rev pre)" by (simp add: s)
  have "takeWhile (\<lambda>c. c \<noteq> CHR ''}'') (rev s) = rev post"
    using assms(2) unfolding r by (subst takeWhile_append2) auto
  then have l: "last_close s = length pre + length mid + 1"
    by (simp add: last_close_def s)
  show ?thesis unfolding substring_def f l by (simp add: s)
qed

subsection \<open>The handlers on any JSON body\<close>

lemma string_of_JStr: "string_of (map_option JStr v) = v"
  by (cases v) (simp_all add: string_of_def)

lemma as_request_as_json: "as_request (as_json req) = req"
  by (simp add: as_request_def as_json_def string_of_JStr)

lemma truthy_json_JStr: "truthy_json (map_option JStr v) = truthy v"
  by (cases v) (simp_all add: truthy_def)

lemma analyze_try_json_typed: "analyze_try_json e (as_json req) k res tr = analyze_try e req k res tr"
proof (cases "imageBase64 req")
  case None
  then show ?thesis by (simp add: analyze_try_json_def analyze_try_def as_json_def truthy_def)
next
  case (Some img)
  then show ?thesis
    by (simp add: analyze_try_json_def analyze_try_def as_json_def truthy_def analyze_image_def)
qed

lemma analyzeWineLabel_json_typed: "analyzeWineLabel_json e (as_json req) = analyzeWineLabel e req"
proof -
  have m: "json_method (as_json req) = httpMethod req" by (simp add: as_json_def)
  show ?thesis
    unfolding analyzeWineLabel_json_def analyzeWineLabel_def as_request_as_json m
      analyze_try_json_typed ..
qed

lemma wineType_json_typed: "wineType_json (map_option JStr t) = JStr (wineType t)"
  by (cases t) (simp_all add: wineType_json_def wineType_def truthy_def)

lemma typeKeyword_json_typed: "typeKeyword_json rt (JStr wt) = Inr (typeKeyword wt)"
  by (simp add: typeKeyword_json_def typeKeyword_def template_def)

lemma searchQuery_json_typed:
  "searchQuery_json rt (JStr q) (map_option JStr t) = Inr (searchQuery q t)"
  by (simp add: searchQuery_json_def searchQuery_def wineType_json_typed typeKeyword_json_typed
        template_def)

lemma search_try_fetch:
  "search_try e req k c res tr =
     (if \<not> truthy (query req)
      then (json (JObj [(''error'', JStr ''No search query provided'')]) (status 400 res), tr)
      else search_fetch e
             (search_url e k c (searchQuery (case query req of Some q \<Rightarrow> q | None \<Rightarrow> []) (type req)))
             res tr)"
  by (simp add: search_try_def search_fetch_def Let_def)

lemma search_try_json_typed:
  assumes "\<forall>s. encodeURIComponent_throwing rt s = Inr (encodeURIComponent e s)"
  shows "search_try_json rt e (as_json req) k c res tr = search_try e req k c res tr"
proof (cases "query req")
  case None
  then show ?thesis by (simp add: search_try_json_def search_try_fetch as_json_def truthy_def)
next
  case (Some q)
  have "json_type (as_json req) = map_option JStr (type req)" by (simp add: as_json_def)
  with Some assms show ?thesis
    by (simp add: search_try_json_def search_try_fetch as_json_def truthy_def
          searchQuery_json_typed search_url_json_def search_url_def)
qed

lemma searchWineImage_json_typed:
  assumes "\<forall>s. encodeURIComponent_throwing rt s = Inr (encodeURIComponent e s)"
  shows "searchWineImage_json rt e (as_json req) = searchWineImage e req"
proof -
  have m: "json_method (as_json req) = httpMethod req" by (simp add: as_json_def)
  show ?thesis
    unfolding searchWineImage_json_def searchWineImage_def as_request_as_json m
      search_try_json_typed [OF assms] ..
qed

lemma analyzeWineLabel_json_options:
  "json_method req = ''OPTIONS'' \<Longrightarrow> analyzeWineLabel_json e req = (reply 204 (Send []), [])"
  by (simp add: analyzeWineLabel_json_def Let_def cors_preamble send_status_reply)

lemma searchWineImage_json_options:
  "json_method req = ''OPTIONS'' \<Longrightarrow> searchWineImage_json rt e req = (reply 204 (Send []), [])"
  by (simp add: searchWineImage_json_def Let_def cors_preamble send_status_reply)

lemma analyzeWineLabel_json_other:
  "json_method req \<noteq> ''OPTIONS'' \<Longrightarrow> json_method req \<noteq> ''POST'' \<Longrightarrow>
   analyzeWineLabel_json e req = (reply 405 (Json (JObj [(''error'', JStr ''Method not allowed'')])), [])"
  by (simp add: analyzeWineLabel_json_def Let_def cors_preamble json_status_reply)

lemma searchWineImage_json_other:
  "json_method req \<noteq> ''OPTIONS'' \<Longrightarrow> json_method req \<noteq> ''POST'' \<Longrightarrow>
   searchWineImage_json rt e req = (reply 405 (Json (JObj [(''error'', JStr ''Method not allowed'')])), [])"
  by (simp add: searchWineImage_json_def Let_def cors_preamble json_status_reply)

lemma analyzeWineLabel_json_post:
  assumes "json_method req = ''POST''"
  shows "analyzeWineLabel_json e req =
           (case verifyAuth e (as_request req) (reply 200 NoBody) of
              (None, res, tr) \<Rightarrow> (res, tr)
            | (Some user, res, tr) \<Rightarrow>
                (if \<not> truthy (openai_key e)
                 then (json (JObj [(''error'', JStr ''OpenAI API not configured'')]) (status 500 res), tr)
                 else analyze_try_json e req (case openai_key e of Some k \<Rightarrow> k | None \<Rightarrow> []) res tr))"
  using assms
  by (simp add: analyzeWineLabel_json_def Let_def cors_preamble getOpenAIKey_def
        split: prod.splits option.splits)

lemma searchWineImage_json_post:
  assumes "json_method req = ''POST''"
  shows "searchWineImage_json rt e req =
           (case verifyAuth e (as_request req) (reply 200 NoBody) of
              (None, res, tr) \<Rightarrow> (res, tr)
            | (Some user, res, tr) \<Rightarrow>
                (if \<not> truthy (google_apikey e) \<or> \<not> truthy (google_cx e)
                 then (json (JObj [(''success'', JBool True), (''imageUrl'', JNull),
                                   (''message'', JStr ''Google Image Search not configured'')]) res, tr)
                 else search_try_json rt e req (case google_apikey e of Some k \<Rightarrow> k | None \<Rightarrow> [])
                        (case google_cx e of Some c \<Rightarrow> c | None \<Rightarrow> []) res tr))"
  using assms
  by (simp add: searchWineImage_json_def Let_def cors_preamble getGoogleApiKey_def getGoogleCx_def
        split: prod.splits option.splits)

subsection \<open>Two deployments that answer alike\<close>

lemma wineData_same_parser: "JSON_parse e1 = JSON_parse e2 \<Longrightarrow> wineData e1 c = wineData e2 c"
  by (simp add: wineData_def split: option.splits)

lemma health_agree:
  assumes "truthy (openai_key e1) = truthy (openai_key e2)"
    and "truthy (google_apikey e1) = truthy (google_apikey e2)"
    and "truthy (google_cx e1) = truthy (google_cx e2)"
  shows "health e1 req = health e2 req"
  using assms by (simp add: health_def getOpenAIKey_def getGoogleApiKey_def getGoogleCx_def)

lemma analyze_image_agree:
  assumes "JSON_parse e1 = JSON_parse e2"
    and "chat_completions_create e1 k1 (image_url img) = chat_completions_create e2 k2 (image_url img)"
  shows "fst (analyze_image e1 img k1 res tr1) = fst (analyze_image e2 img k2 res tr2)"
proof (cases "chat_completions_create e2 k2 (image_url img)")
  case (Inl message)
  with assms(2) show ?thesis by (simp add: analyze_image_def Let_def)
next
  case (Inr content)
  with assms(2) wineData_same_parser [OF assms(1), of content] show ?thesis
    by (cases "wineData e2 content") (simp_all add: analyze_image_def Let_def)
qed

lemma analyze_try_json_agree:
  assumes "JSON_parse e1 = JSON_parse e2"
    and "\<forall>img. json_imageBase64 req = Some (JStr img) \<longrightarrow>
           chat_completions_create e1 k1 (image_url img) = chat_completions_create e2 k2 (image_url img)"
  shows "fst (analyze_try_json e1 req k1 res tr1) = fst (analyze_try_json e2 req k2 res tr2)"
proof (cases "json_imageBase64 req")
  case None
  then show ?thesis by (simp add: analyze_try_json_def)
next
  case (Some v)
  show ?thesis
  proof (cases v)
    case (JStr img)
    with Some assms(2) have "chat_completions_create e1 k1 (image_url img) =
        chat_completions_create e2 k2 (image_url img)" by simp
    from analyze_image_agree [OF assms(1) this] Some JStr show ?thesis
      by (simp add: analyze_try_json_def)
  qed (simp_all add: Some analyze_try_json_def)
qed

lemma search_fetch_agree:
  assumes "fetch_json e1 u1 = fetch_json e2 u2"
  shows "fst (search_fetch e1 u1 res tr1) = fst (search_fetch e2 u2 res tr2)"
  using assms
  by (cases "fetch_json e2 u2")
     (simp_all add: search_fetch_def split: option.splits list.splits)

lemma search_try_json_agree:
  assumes "\<forall>q sq u1 u2. json_query req = Some q \<and> searchQuery_json rt q (json_type req) = Inr sq \<and>
             search_url_json rt k1 c1 sq = Inr u1 \<and> search_url_json rt k2 c2 sq = Inr u2 \<longrightarrow>
             fetch_json e1 u1 = fetch_json e2 u2"
  shows "fst (search_try_json rt e1 req k1 c1 res tr1) = fst (search_try_json rt e2 req k2 c2 res tr2)"
proof (cases "truthy_json (json_query req)")
  case False
  then show ?thesis by (simp add: search_try_json_def)
next
  case True
  then obtain q where q: "json_query req = Some q" by (cases "json_query req") auto
  show ?thesis
  proof (cases "searchQuery_json rt q (json_type req)")
    case (Inl message)
    with True q show ?thesis by (simp add: search_try_json_def)
  next
    case (Inr sq)
    show ?thesis
    proof (cases "encodeURIComponent_throwing rt sq")
      case (Inl message)
      with True q Inr show ?thesis by (simp add: search_try_json_def search_url_json_def)
    next
      case enc: (Inr enc)
      then obtain u1 u2 where u: "search_url_json rt k1 c1 sq = Inr u1" "search_url_json rt k2 c2 sq = Inr u2"
        by (simp add: search_url_json_def)
      with assms q Inr have "fetch_json e1 u1 = fetch_json e2 u2" by blast
      from search_fetch_agree [OF this] True q Inr u show ?thesis
        by (simp add: search_try_json_def)
    qed
  qed
qed

lemma analyzeWineLabel_json_agree:
  assumes flag: "truthy (openai_key e1) = truthy (openai_key e2)"
    and auth: "\<forall>t. bearer_token (as_request req) = Some t \<longrightarrow>
                 isl (verifyIdToken e1 t) = isl (verifyIdToken e2 t)"
    and model: "\<forall>k1 k2 img. openai_key e1 = Some k1 \<and> openai_key e2 = Some k2 \<and>
        json_imageBase64 req = Some (JStr img) \<longrightarrow>
        chat_completions_create e1 k1 (image_url img) = chat_completions_create e2 k2 (image_url img)"
    and parse: "JSON_parse e1 = JSON_parse e2"
  shows "fst (analyzeWineLabel_json e1 req) = fst (analyzeWineLabel_json e2 req)"
proof (cases "json_method req = ''POST''")
  case False
  then show ?thesis
    by (cases "json_method req = ''OPTIONS''")
       (simp_all add: analyzeWineLabel_json_options analyzeWineLabel_json_other)
next
  case post: True
  note p = analyzeWineLabel_json_post [OF post]
  show ?thesis
  proof (cases "bearer_token (as_request req)")
    case None
    then show ?thesis by (simp add: p bearer_token_None verifyAuth_no_token)
  next
    case (Some t)
    with auth have a: "isl (verifyIdToken e1 t) = isl (verifyIdToken e2 t)" by simp
    note v = verifyAuth_token [OF Some]
    show ?thesis
    proof (cases "verifyIdToken e1 t")
      case (Inl err1)
      with a obtain err2 where "verifyIdToken e2 t = Inl err2" by (cases "verifyIdToken e2 t") auto
      with Inl show ?thesis by (simp add: p v)
    next
      case (Inr p1)
      with a obtain p2 where p2: "verifyIdToken e2 t = Inr p2" by (cases "verifyIdToken e2 t") auto
      show ?thesis
      proof (cases "truthy (openai_key e1)")
        case False
        with flag Inr p2 show ?thesis by (simp add: p v)
      next
        case True
        then obtain k1 where k1: "openai_key e1 = Some k1" "k1 \<noteq> []" by (rule truthy_obtain)
        from True flag have "truthy (openai_key e2)" by simp
        then obtain k2 where k2: "openai_key e2 = Some k2" "k2 \<noteq> []" by (rule truthy_obtain)
        from model k1 k2 have "\<forall>img. json_imageBase64 req = Some (JStr img) \<longrightarrow>
             chat_completions_create e1 k1 (image_url img) = chat_completions_create e2 k2 (image_url img)"
          by simp
        from analyze_try_json_agree [OF parse this] k1 k2 Inr p2 show ?thesis
          by (simp add: p v truthy_Some)
      qed
    qed
  qed
qed

lemma searchWineImage_json_agree:
  assumes flags: "truthy (google_apikey e1) = truthy (google_apikey e2)"
      "truthy (google_cx e1) = truthy (google_cx e2)"
    and auth: "\<forall>t. bearer_token (as_request req) = Some t \<longrightarrow>
                 isl (verifyIdToken e1 t) = isl (verifyIdToken e2 t)"
    and search: "\<forall>k1 c1 k2 c2 q sq u1 u2. google_apikey e1 = Some k1 \<and> google_cx e1 = Some c1 \<and>
        google_apikey e2 = Some k2 \<and> google_cx e2 = Some c2 \<and> json_query req = Some q \<and>
        searchQuery_json rt q (json_type req) = Inr sq \<and>
        search_url_json rt k1 c1 sq = Inr u1 \<and> search_url_json rt k2 c2 sq = Inr u2 \<longrightarrow>
        fetch_json e1 u1 = fetch_json e2 u2"
  shows "fst (searchWineImage_json rt e1 req) = fst (searchWineImage_json rt e2 req)"
proof (cases "json_method req = ''POST''")
  case False
  then show ?thesis
    by (cases "json_method req = ''OPTIONS''")
       (simp_all add: searchWineImage_json_options searchWineImage_json_other)
next
  case post: True
  note p = searchWineImage_json_post [OF post]
  show ?thesis
  proof (cases "bearer_token (as_request req)")
    case None
    then show ?thesis by (simp add: p bearer_token_None verifyAuth_no_token)
  next
    case (Some t)
    with auth have a: "isl (verifyIdToken e1 t) = isl (verifyIdToken e2 t)" by simp
    note v = verifyAuth_token [OF Some]
    show ?thesis
    proof (cases "verifyIdToken e1 t")
      case (Inl err1)
      with a obtain err2 where "verifyIdToken e2 t = Inl err2" by (cases "verifyIdToken e2 t") auto
      with Inl show ?thesis by (simp add: p v)
    next
      case (Inr p1)
      with a obtain p2 where p2: "verifyIdToken e2 t = Inr p2" by (cases "verifyIdToken e2 t") auto
      show ?thesis
      proof (cases "truthy (google_apikey e1) \<and> truthy (google_cx e1)")
        case False
        with flags Inr p2 show ?thesis by (auto simp: p v)
      next
        case True
        then obtain k1 c1 where k1: "google_apikey e1 = Some k1" "k1 \<noteq> []"
          and c1: "google_cx e1 = Some c1" "c1 \<noteq> []"
          by (auto elim!: truthy_obtain)
        from True flags have "truthy (google_apikey e2)" "truthy (google_cx e2)" by simp_all
        then obtain k2 c2 where k2: "google_apikey e2 = Some k2" "k2 \<noteq> []"
          and c2: "google_cx e2 = Some c2" "c2 \<noteq> []"
          by (auto elim!: truthy_obtain)
        from search k1 c1 k2 c2
        have "\<forall>q sq u1 u2. json_query req = Some q \<and> searchQuery_json rt q (json_type req) = Inr sq \<and>
             search_url_json rt k1 c1 sq = Inr u1 \<and> search_url_json rt k2 c2 sq = Inr u2 \<longrightarrow>
             fetch_json e1 u1 = fetch_json e2 u2"
          by simp
        from search_try_json_agree [OF this] k1 c1 k2 c2 Inr p2 show ?thesis
          by (simp add: p v truthy_Some)
      qed
    qed
  qed
qed

subsection \<open>Evaluating the sample inputs\<close>

lemmas sample_defs = sample_env_def preflight_def label_request_def search_request_def
  failing_env_def other_failing_env_def confused_env_def leaky_env_def
lemmas eval_defs = bearer_token_def idToken_def index_def split_sep_def startsWith_def truthy_def

section \<open>The claims\<close>

subsection \<open>C1: preflight requests\<close>

text \<open>
  C1, as the specification states it: every endpoint answers every \<^verbatim>\<open>OPTIONS\<close> request with
  status 204, an empty body and the CORS headers. The health handler has no method check:
  on the sample deployment it answers an \<^verbatim>\<open>OPTIONS\<close> request with status 200 and its status
  object.
\<close>

theorem health_preflight_counterexample:
  "httpMethod preflight = ''OPTIONS'' \<and>
   statusCode (fst (health sample_env preflight)) = 200 \<and>
   statusCode (fst (health sample_env preflight)) \<noteq> 204 \<and>
   body (fst (health sample_env preflight)) =
     Json (JObj [(''status'', JStr ''ok''), (''openaiConfigured'', JBool True),
                 (''googleConfigured'', JBool True)]) \<and>
   body (fst (health sample_env preflight)) \<noteq> Send []"
  by (simp add: sample_defs health_def Let_def set_header_def json_def new_response_def truthy_def
        getOpenAIKey_def getGoogleApiKey_def getGoogleCx_def)

text \<open>
  C1, amended: \<^verbatim>\<open>analyzeWineLabel\<close> and \<^verbatim>\<open>searchWineImage\<close> answer every \<^verbatim>\<open>OPTIONS\<close> request,
  whatever its \<^verbatim>\<open>Authorization\<close> header and whatever the identity service would say, with
  status 204, an empty body and the three CORS headers, and call nothing; \<^verbatim>\<open>health\<close> answers
  an \<^verbatim>\<open>OPTIONS\<close> request as it answers any other method, with status 200, its status
  object and the header \<^verbatim>\<open>Access-Control-Allow-Origin: *\<close>.
\<close>

theorem preflight_replies:
  assumes "httpMethod req = ''OPTIONS''"
  shows "analyzeWineLabel e req = (reply 204 (Send []), []) \<and>
         searchWineImage e req = (reply 204 (Send []), []) \<and>
         headers (reply 204 (Send [])) = cors_headers \<and>
         health e req =
           (\<lparr>statusCode = 200,
             headers = [(''Access-Control-Allow-Origin'', ''*'')],
             body = Json (JObj
               [(''status'', JStr ''ok''),
                (''openaiConfigured'', JBool (truthy (openai_key e))),
                (''googleConfigured'', JBool (truthy (google_apikey e) \<and> truthy (google_cx e)))])\<rparr>,
            [])"
proof (intro conjI)
  show "analyzeWineLabel e req = (reply 204 (Send []), [])"
    using assms by (rule analyzeWineLabel_options)
  show "searchWineImage e req = (reply 204 (Send []), [])"
    using assms by (rule searchWineImage_options)
  show "headers (reply 204 (Send [])) = cors_headers"
    by (simp add: reply_def)
  show "health e req =
           (\<lparr>statusCode = 200,
             headers = [(''Access-Control-Allow-Origin'', ''*'')],
             body = Json (JObj
               [(''status'', JStr ''ok''),
                (''openaiConfigured'', JBool (truthy (openai_key e))),
                (''googleConfigured'', JBool (truthy (google_apikey e) \<and> truthy (google_cx e)))])\<rparr>,
            [])"
    by (simp add: health_def Let_def set_header_def json_def new_response_def
          getOpenAIKey_def getGoogleApiKey_def getGoogleCx_def)
qed

theorem preflight_replies_witness:
  "httpMethod (preflight\<lparr>authorization := Some ''Bearer expired''\<rparr>) = ''OPTIONS'' \<and>
   analyzeWineLabel sample_env (preflight\<lparr>authorization := Some ''Bearer expired''\<rparr>) =
     (\<lparr>statusCode = 204, headers = cors_headers, body = Send []\<rparr>, []) \<and>
   searchWineImage sample_env (preflight\<lparr>authorization := Some ''Bearer expired''\<rparr>) =
     (\<lparr>statusCode = 204, headers = cors_headers, body = Send []\<rparr>, []) \<and>
   statusCode (fst (health sample_env (preflight\<lparr>authorization := Some ''Bearer expired''\<rparr>))) = 200"
proof -
  have m: "httpMethod (preflight\<lparr>authorization := Some ''Bearer expired''\<rparr>) = ''OPTIONS''"
    by (simp add: preflight_def)
  from preflight_replies [OF m, of sample_env] m show ?thesis
    by (simp add: reply_def)
qed

subsection \<open>C2: requests without a valid credential\<close>

text \<open>
  C2: a \<^verbatim>\<open>POST\<close> request to a protected endpoint whose \<^verbatim>\<open>Authorization\<close> header is absent or
  does not start with \<^verbatim>\<open>Bearer \<close> is answered with 401 and
  \<^verbatim>\<open>{error: "Unauthorized - No token provided"}\<close>; one whose extracted token the identity
  service rejects is answered with 401 and \<^verbatim>\<open>{error: "Unauthorized - Invalid token"}\<close>. In
  both cases the trace holds no call of the model provider or the search provider: it is
  empty in the first case, and holds the call of the identity service and the log line in
  the second.
\<close>

theorem protected_endpoints_reject_unauthenticated:
  assumes "httpMethod req = ''POST''"
  shows "(authorization req = None \<or> (\<exists>h. authorization req = Some h \<and> \<not> startsWith h ''Bearer '') \<longrightarrow>
            analyzeWineLabel e req =
              (reply 401 (Json (JObj [(''error'', JStr ''Unauthorized - No token provided'')])), []) \<and>
            searchWineImage e req =
              (reply 401 (Json (JObj [(''error'', JStr ''Unauthorized - No token provided'')])), [])) \<and>
         (\<forall>t err. bearer_token req = Some t \<and> verifyIdToken e t = Inl err \<longrightarrow>
            analyzeWineLabel e req =
              (reply 401 (Json (JObj [(''error'', JStr ''Unauthorized - Invalid token'')])),
               [VerifyIdToken t, ConsoleError ''Auth error:'']) \<and>
            searchWineImage e req =
              (reply 401 (Json (JObj [(''error'', JStr ''Unauthorized - Invalid token'')])),
               [VerifyIdToken t, ConsoleError ''Auth error:''])) \<and>
         (bearer_token req = None \<or> (\<exists>t err. bearer_token req = Some t \<and> verifyIdToken e t = Inl err) \<longrightarrow>
            filter upstream (snd (analyzeWineLabel e req)) = [] \<and>
            filter upstream (snd (searchWineImage e req)) = [])"
proof (intro conjI impI allI)
  assume "authorization req = None \<or> (\<exists>h. authorization req = Some h \<and> \<not> startsWith h ''Bearer '')"
  then have n: "bearer_token req = None" by (simp add: bearer_token_None)
  show "analyzeWineLabel e req =
          (reply 401 (Json (JObj [(''error'', JStr ''Unauthorized - No token provided'')])), [])"
    using assms n by (rule analyzeWineLabel_no_token)
  show "searchWineImage e req =
          (reply 401 (Json (JObj [(''error'', JStr ''Unauthorized - No token provided'')])), [])"
    using assms n by (rule searchWineImage_no_token)
next
  fix t err
  assume "bearer_token req = Some t \<and> verifyIdToken e t = Inl err"
  then have b: "bearer_token req = Some t" and r: "verifyIdToken e t = Inl err" by simp_all
  show "analyzeWineLabel e req =
          (reply 401 (Json (JObj [(''error'', JStr ''Unauthorized - Invalid token'')])),
           [VerifyIdToken t, ConsoleError ''Auth error:''])"
    using assms b r by (rule analyzeWineLabel_rejected)
  show "searchWineImage e req =
          (reply 401 (Json (JObj [(''error'', JStr ''Unauthorized - Invalid token'')])),
           [VerifyIdToken t, ConsoleError ''Auth error:''])"
    using assms b r by (rule searchWineImage_rejected)
next
  assume a: "bearer_token req = None \<or> (\<exists>t err. bearer_token req = Some t \<and> verifyIdToken e t = Inl err)"
  then show "filter upstream (snd (analyzeWineLabel e req)) = []"
    by (auto simp: analyzeWineLabel_no_token [OF assms] analyzeWineLabel_rejected [OF assms])
  from a show "filter upstream (snd (searchWineImage e req)) = []"
    by (auto simp: searchWineImage_no_token [OF assms] searchWineImage_rejected [OF assms])
qed

theorem protected_endpoints_reject_unauthenticated_witness:
  "httpMethod label_request = ''POST'' \<and>
   analyzeWineLabel sample_env (label_request\<lparr>authorization := Some ''Basic dXNlcg==''\<rparr>) =
     (reply 401 (Json (JObj [(''error'', JStr ''Unauthorized - No token provided'')])), []) \<and>
   searchWineImage sample_env (search_request\<lparr>authorization := None\<rparr>) =
     (reply 401 (Json (JObj [(''error'', JStr ''Unauthorized - No token provided'')])), []) \<and>
   searchWineImage sample_env (search_request\<lparr>authorization := Some ''Bearer expired''\<rparr>) =
     (reply 401 (Json (JObj [(''error'', JStr ''Unauthorized - Invalid token'')])),
      [VerifyIdToken ''expired'', ConsoleError ''Auth error:'']) \<and>
   filter upstream (snd (analyzeWineLabel sample_env (label_request\<lparr>authorization := Some ''Bearer expired''\<rparr>))) = []"
proof -
  let ?r1 = "label_request\<lparr>authorization := Some ''Basic dXNlcg==''\<rparr>"
  let ?r2 = "search_request\<lparr>authorization := None\<rparr>"
  let ?r3 = "search_request\<lparr>authorization := Some ''Bearer expired''\<rparr>"
  let ?r4 = "label_request\<lparr>authorization := Some ''Bearer expired''\<rparr>"
  have m: "httpMethod label_request = ''POST''" "httpMethod ?r1 = ''POST''" "httpMethod ?r2 = ''POST''"
    "httpMethod ?r3 = ''POST''" "httpMethod ?r4 = ''POST''"
    by (simp_all add: sample_defs)
  have h1: "\<exists>h. authorization ?r1 = Some h \<and> \<not> startsWith h ''Bearer ''"
    by (simp add: startsWith_def)
  have h2: "authorization ?r2 = None" by simp
  have h3: "bearer_token ?r3 = Some ''expired''" "bearer_token ?r4 = Some ''expired''"
    by (simp_all add: eval_defs)
  have h4: "verifyIdToken sample_env ''expired'' = Inl ''invalid token''"
    by (simp add: sample_env_def)
  from protected_endpoints_reject_unauthenticated [OF m(2), of sample_env] h1
    protected_endpoints_reject_unauthenticated [OF m(3), of sample_env] h2
    protected_endpoints_reject_unauthenticated [OF m(4), of sample_env] h3(1) h4
    protected_endpoints_reject_unauthenticated [OF m(5), of sample_env] h3(2) h4
    m(1)
  show ?thesis by blast
qed

subsection \<open>C3: locating the object in the model's reply\<close>

text \<open>
  C3: the text handed to \<^verbatim>\<open>JSON.parse\<close> is the match of the greedy brace pattern when there
  is one: a substring of the reply that starts with an opening brace and ends with a
  closing brace, with no opening brace before it and no closing brace after it. There is
  no match exactly when the reply holds no opening brace followed by a closing brace, and
  then the whole reply is parsed. In particular, when the reply is prose without braces
  around one brace-delimited text that parses to an object, an authenticated, configured
  \<^verbatim>\<open>POST\<close> with an image is answered with status 200 and \<^verbatim>\<open>{success: true, data: object}\<close>.
\<close>

theorem label_reply_parsing:
  "(\<forall>m. jsonMatch content = Some m \<longrightarrow>
      (\<exists>pre mid post. content = pre @ m @ post \<and> m = CHR ''{'' # mid @ ''}'' \<and>
         CHR ''{'' \<notin> set pre \<and> CHR ''}'' \<notin> set post) \<and>
      wineData e (Some content) = JSON_parse e m) \<and>
   (jsonMatch content = None \<longleftrightarrow>
      \<not> (\<exists>pre mid post. content = pre @ CHR ''{'' # mid @ CHR ''}'' # post)) \<and>
   (jsonMatch content = None \<longrightarrow> wineData e (Some content) = JSON_parse e content) \<and>
   (\<forall>pre mid post d.
      content = pre @ (CHR ''{'' # mid @ ''}'') @ post \<and>
      CHR ''{'' \<notin> set pre \<and> CHR ''}'' \<notin> set pre \<and> CHR ''{'' \<notin> set post \<and> CHR ''}'' \<notin> set post \<and>
      JSON_parse e (CHR ''{'' # mid @ ''}'') = Some d \<and>
      httpMethod req = ''POST'' \<and> bearer_token req = Some t \<and> verifyIdToken e t = Inr p \<and>
      openai_key e = Some k \<and> k \<noteq> [] \<and> imageBase64 req = Some img \<and> img \<noteq> [] \<and>
      chat_completions_create e k (image_url img) = Inr (Some content) \<longrightarrow>
      analyzeWineLabel e req =
        (reply 200 (Json (JObj [(''success'', JBool True), (''data'', d)])),
         [VerifyIdToken t, ChatCompletion k (image_url img)]))"
proof (intro conjI allI impI)
  fix m
  assume m: "jsonMatch content = Some m"
  with jsonMatch_cases [of content]
  obtain pre mid post where c: "content = pre @ CHR ''{'' # mid @ CHR ''}'' # post"
    and p: "CHR ''{'' \<notin> set pre" "CHR ''}'' \<notin> set post" and m': "m = CHR ''{'' # mid @ ''}''"
    by auto
  from c m' have "content = pre @ m @ post" by simp
  with m' p show "\<exists>pre mid post. content = pre @ m @ post \<and> m = CHR ''{'' # mid @ ''}'' \<and>
         CHR ''{'' \<notin> set pre \<and> CHR ''}'' \<notin> set post"
    by blast
  from m show "wineData e (Some content) = JSON_parse e m" by (simp add: wineData_def)
next
  from jsonMatch_cases [of content]
  show "jsonMatch content = None \<longleftrightarrow>
      \<not> (\<exists>pre mid post. content = pre @ CHR ''{'' # mid @ CHR ''}'' # post)"
    by auto
next
  assume "jsonMatch content = None"
  then show "wineData e (Some content) = JSON_parse e content" by (simp add: wineData_def)
next
  fix pre mid post d
  assume a: "content = pre @ (CHR ''{'' # mid @ ''}'') @ post \<and>
      CHR ''{'' \<notin> set pre \<and> CHR ''}'' \<notin> set pre \<and> CHR ''{'' \<notin> set post \<and> CHR ''}'' \<notin> set post \<and>
      JSON_parse e (CHR ''{'' # mid @ ''}'') = Some d \<and>
      httpMethod req = ''POST'' \<and> bearer_token req = Some t \<and> verifyIdToken e t = Inr p \<and>
      openai_key e = Some k \<and> k \<noteq> [] \<and> imageBase64 req = Some img \<and> img \<noteq> [] \<and>
      chat_completions_create e k (image_url img) = Inr (Some content)"
  then have c: "content = pre @ CHR ''{'' # mid @ CHR ''}'' # post"
    and p: "CHR ''{'' \<notin> set pre" "CHR ''}'' \<notin> set post"
    and d: "JSON_parse e (CHR ''{'' # mid @ ''}'') = Some d"
    by simp_all
  from a have r: "httpMethod req = ''POST''" "bearer_token req = Some t" "verifyIdToken e t = Inr p"
    and k: "openai_key e = Some k" "k \<noteq> []"
    and i: "imageBase64 req = Some img" "img \<noteq> []"
    and ch: "chat_completions_create e k (image_url img) = Inr (Some content)"
    by simp_all
  from jsonMatch_span [OF p, of mid] c have "jsonMatch content = Some (CHR ''{'' # mid @ ''}'')"
    by simp
  with d have w: "wineData e (Some content) = Some d" by (simp add: wineData_def)
  from k have "analyzeWineLabel e req = analyze_try e req k (reply 200 NoBody) [VerifyIdToken t]"
    by (simp add: analyzeWineLabel_accepted [OF r] truthy_Some)
  with analyze_try_success [OF i ch w, of "reply 200 NoBody" "[VerifyIdToken t]"]
  show "analyzeWineLabel e req =
        (reply 200 (Json (JObj [(''success'', JBool True), (''data'', d)])),
         [VerifyIdToken t, ChatCompletion k (image_url img)])"
    by (simp add: json_reply)
qed

theorem label_reply_parsing_witness:
  "jsonMatch (''Here is the result: '' @ sample_object @ '' enjoy'') = Some sample_object \<and>
   wineData sample_env (Some (''Here is the result: '' @ sample_object @ '' enjoy'')) =
     Some (JObj [(''year'', JNum 2015)]) \<and>
   jsonMatch ''} no object here {'' = None \<and>
   wineData sample_env (Some ''} no object here {'') = JSON_parse sample_env ''} no object here {'' \<and>
   analyzeWineLabel sample_env label_request =
     (reply 200 (Json (JObj [(''success'', JBool True), (''data'', JObj [(''year'', JNum 2015)])])),
      [VerifyIdToken ''good'', ChatCompletion ''sk-test'' ''data:image/jpeg;base64,aGVsbG8=''])"
proof -
  let ?c = "''Here is the result: '' @ sample_object @ '' enjoy''"
  let ?mid = "[CHR 0x22] @ ''year'' @ [CHR 0x22] @ '':2015''"
  have m: "jsonMatch ?c = Some sample_object"
    using jsonMatch_span [of "''Here is the result: ''" "'' enjoy''" ?mid]
    by (simp add: sample_object_def)
  have n: "jsonMatch ''} no object here {'' = None"
    by (simp add: jsonMatch_def closes_def)
  have pa: "JSON_parse sample_env sample_object = Some (JObj [(''year'', JNum 2015)])"
    by (simp add: sample_env_def)
  have h: "?c = ''Here is the result: '' @ (CHR ''{'' # ?mid @ ''}'') @ '' enjoy'' \<and>
      CHR ''{'' \<notin> set ''Here is the result: '' \<and> CHR ''}'' \<notin> set ''Here is the result: '' \<and>
      CHR ''{'' \<notin> set '' enjoy'' \<and> CHR ''}'' \<notin> set '' enjoy'' \<and>
      JSON_parse sample_env (CHR ''{'' # ?mid @ ''}'') = Some (JObj [(''year'', JNum 2015)]) \<and>
      httpMethod label_request = ''POST'' \<and> bearer_token label_request = Some ''good'' \<and>
      verifyIdToken sample_env ''good'' = Inr (Principal ''uid-1'') \<and>
      openai_key sample_env = Some ''sk-test'' \<and> ''sk-test'' \<noteq> [] \<and>
      imageBase64 label_request = Some ''aGVsbG8='' \<and> ''aGVsbG8='' \<noteq> [] \<and>
      chat_completions_create sample_env ''sk-test'' (image_url ''aGVsbG8='') = Inr (Some ?c)"
    by (simp add: sample_defs eval_defs sample_object_def)
  have u: "image_url ''aGVsbG8='' = ''data:image/jpeg;base64,aGVsbG8=''"
    by (simp add: image_url_def startsWith_def)
  note t = label_reply_parsing [of ?c sample_env label_request "''good''" "Principal ''uid-1''"
      "''sk-test''" "''aGVsbG8=''"]
  from t m have 1: "wineData sample_env (Some ?c) = JSON_parse sample_env sample_object" by blast
  from label_reply_parsing [of "''} no object here {''" sample_env] n
  have 2: "wineData sample_env (Some ''} no object here {'') = JSON_parse sample_env ''} no object here {''"
    by blast
  from t h have 3: "analyzeWineLabel sample_env label_request =
     (reply 200 (Json (JObj [(''success'', JBool True), (''data'', JObj [(''year'', JNum 2015)])])),
      [VerifyIdToken ''good'', ChatCompletion ''sk-test'' (image_url ''aGVsbG8='')])"
    by blast
  from m n 1 2 3 pa u show ?thesis by simp
qed

subsection \<open>C4: the search string\<close>



subsection \<open>C5: what an error body can hold\<close>

text \<open>
  C5, as the specification states it: no error body holds a secret configuration value.
  The handlers pass the text of an upstream error on to the client (lines 160 and 223).
  On a deployment whose model provider names the rejected key in its error text, the
  body of the 500 response holds the key.
\<close>

theorem upstream_error_text_counterexample:
  "openai_key leaky_env = Some ''sk-test'' \<and>
   fst (analyzeWineLabel leaky_env label_request) =
     reply 500 (Json (JObj [(''error'', JStr ''Failed to analyze image''),
                            (''message'', JStr ''401 Incorrect API key provided: sk-test'')])) \<and>
   includes_str ''401 Incorrect API key provided: sk-test'' ''sk-test'' \<and>
   analyzeWineLabel_json leaky_env (as_json label_request) = analyzeWineLabel leaky_env label_request"
proof -
  have l: "httpMethod label_request = ''POST''" "bearer_token label_request = Some ''good''"
    "verifyIdToken leaky_env ''good'' = Inr (Principal ''uid-1'')"
    by (simp_all add: sample_defs eval_defs)
  have 1: "fst (analyzeWineLabel leaky_env label_request) =
     reply 500 (Json (JObj [(''error'', JStr ''Failed to analyze image''),
                            (''message'', JStr ''401 Incorrect API key provided: sk-test'')]))"
    by (simp add: analyzeWineLabel_accepted [OF l] analyze_try_def Let_def)
       (simp add: sample_defs truthy_def json_status_reply)
  have 2: "includes_str ''401 Incorrect API key provided: sk-test'' ''sk-test''"
    by (simp add: startsWith_def)
  have 3: "openai_key leaky_env = Some ''sk-test''" by (simp add: sample_defs)
  from 1 2 3 analyzeWineLabel_json_typed [of leaky_env label_request] show ?thesis by simp
qed

text \<open>
  C5, amended: no response depends on the principal or on the values of the secrets.
  Take any request, whatever JSON values its body fields hold, and two deployments in
  which the same configuration values are set (their values may differ), whose identity
  services accept the same tokens (the principals may differ), whose upstream services
  give the same answers to the calls of the request, and which share the parser and the
  language runtime. Then every endpoint gives the same response, error responses
  included, on both.
\<close>

theorem responses_independent_of_secrets:
  assumes "truthy (openai_key e1) = truthy (openai_key e2)"
    and "truthy (google_apikey e1) = truthy (google_apikey e2)"
    and "truthy (google_cx e1) = truthy (google_cx e2)"
    and "\<forall>t. bearer_token (as_request req) = Some t \<longrightarrow>
           isl (verifyIdToken e1 t) = isl (verifyIdToken e2 t)"
    and "\<forall>k1 k2 img. openai_key e1 = Some k1 \<and> openai_key e2 = Some k2 \<and>
           json_imageBase64 req = Some (JStr img) \<longrightarrow>
           chat_completions_create e1 k1 (image_url img) = chat_completions_create e2 k2 (image_url img)"
    and "\<forall>k1 c1 k2 c2 q sq u1 u2. google_apikey e1 = Some k1 \<and> google_cx e1 = Some c1 \<and>
           google_apikey e2 = Some k2 \<and> google_cx e2 = Some c2 \<and> json_query req = Some q \<and>
           searchQuery_json rt q (json_type req) = Inr sq \<and>
           search_url_json rt k1 c1 sq = Inr u1 \<and> search_url_json rt k2 c2 sq = Inr u2 \<longrightarrow>
           fetch_json e1 u1 = fetch_json e2 u2"
    and "JSON_parse e1 = JSON_parse e2"
  shows "fst (analyzeWineLabel_json e1 req) = fst (analyzeWineLabel_json e2 req) \<and>
         fst (searchWineImage_json rt e1 req) = fst (searchWineImage_json rt e2 req) \<and>
         fst (health e1 (as_request req)) = fst (health e2 (as_request req))"
proof (intro conjI)
  show "fst (analyzeWineLabel_json e1 req) = fst (analyzeWineLabel_json e2 req)"
    using assms(1,4,5,7) by (rule analyzeWineLabel_json_agree)
  show "fst (searchWineImage_json rt e1 req) = fst (searchWineImage_json rt e2 req)"
    using assms(2,3,4,6) by (rule searchWineImage_json_agree)
  show "fst (health e1 (as_request req)) = fst (health e2 (as_request req))"
    using health_agree [OF assms(1,2,3)] by simp
qed

theorem responses_independent_of_secrets_witness:
  "openai_key failing_env \<noteq> openai_key other_failing_env \<and>
   google_apikey failing_env \<noteq> google_apikey other_failing_env \<and>
   google_cx failing_env \<noteq> google_cx other_failing_env \<and>
   verifyIdToken failing_env ''good'' \<noteq> verifyIdToken other_failing_env ''good'' \<and>
   fst (analyzeWineLabel_json failing_env (as_json label_request)) =
     reply 500 (Json (JObj [(''error'', JStr ''Failed to analyze image''),
                            (''message'', JStr ''429 quota exceeded'')])) \<and>
   fst (analyzeWineLabel_json other_failing_env (as_json label_request)) =
     fst (analyzeWineLabel_json failing_env (as_json label_request)) \<and>
   fst (analyzeWineLabel_json failing_env number_image_request) =
     reply 500 (Json (JObj [(''error'', JStr ''Failed to analyze image''),
                            (''message'', JStr ''imageBase64.startsWith is not a function'')])) \<and>
   fst (analyzeWineLabel_json other_failing_env number_image_request) =
     fst (analyzeWineLabel_json failing_env number_image_request) \<and>
   fst (searchWineImage_json sample_runtime failing_env (as_json search_request)) =
     reply 500 (Json (JObj [(''error'', JStr ''Failed to search images''),
                            (''message'', JStr ''fetch failed'')])) \<and>
   fst (searchWineImage_json sample_runtime other_failing_env (as_json search_request)) =
     fst (searchWineImage_json sample_runtime failing_env (as_json search_request)) \<and>
   fst (searchWineImage_json sample_runtime failing_env object_query_request) =
     reply 500 (Json (JObj [(''error'', JStr ''Failed to search images''),
                            (''message'', JStr ''Cannot convert object to primitive value'')])) \<and>
   fst (searchWineImage_json sample_runtime other_failing_env object_query_request) =
     fst (searchWineImage_json sample_runtime failing_env object_query_request)"
proof -
  have d: "openai_key failing_env \<noteq> openai_key other_failing_env"
    "google_apikey failing_env \<noteq> google_apikey other_failing_env"
    "google_cx failing_env \<noteq> google_cx other_failing_env"
    "verifyIdToken failing_env ''good'' \<noteq> verifyIdToken other_failing_env ''good''"
    by (simp_all add: sample_defs)
  have f: "truthy (openai_key failing_env) = truthy (openai_key other_failing_env)"
    "truthy (google_apikey failing_env) = truthy (google_apikey other_failing_env)"
    "truthy (google_cx failing_env) = truthy (google_cx other_failing_env)"
    by (simp_all add: sample_defs truthy_def)
  have a: "\<forall>t. bearer_token (as_request r) = Some t \<longrightarrow>
      isl (verifyIdToken failing_env t) = isl (verifyIdToken other_failing_env t)" for r
    by (simp add: sample_defs)
  have m: "\<forall>k1 k2 img. openai_key failing_env = Some k1 \<and> openai_key other_failing_env = Some k2 \<and>
        json_imageBase64 r = Some (JStr img) \<longrightarrow>
      chat_completions_create failing_env k1 (image_url img) =
      chat_completions_create other_failing_env k2 (image_url img)" for r
    by (simp add: sample_defs)
  have s: "\<forall>k1 c1 k2 c2 q sq u1 u2. google_apikey failing_env = Some k1 \<and> google_cx failing_env = Some c1 \<and>
        google_apikey other_failing_env = Some k2 \<and> google_cx other_failing_env = Some c2 \<and>
        json_query r = Some q \<and> searchQuery_json sample_runtime q (json_type r) = Inr sq \<and>
        search_url_json sample_runtime k1 c1 sq = Inr u1 \<and>
        search_url_json sample_runtime k2 c2 sq = Inr u2 \<longrightarrow>
      fetch_json failing_env u1 = fetch_json other_failing_env u2" for r
    by (simp add: sample_defs)
  have p: "JSON_parse failing_env = JSON_parse other_failing_env"
    by (simp add: sample_defs)
  note t = responses_independent_of_secrets [OF f a m s p]
  have l: "json_method (as_json label_request) = ''POST''"
    "json_method number_image_request = ''POST''"
    "json_method (as_json search_request) = ''POST''"
    "json_method object_query_request = ''POST''"
    by (simp_all add: as_json_def number_image_request_def object_query_request_def sample_defs)
  have b: "bearer_token (as_request (as_json label_request)) = Some ''good''"
    "bearer_token (as_request number_image_request) = Some ''good''"
    "bearer_token (as_request (as_json search_request)) = Some ''good''"
    "bearer_token (as_request object_query_request) = Some ''good''"
    by (simp_all add: as_request_def as_json_def number_image_request_def object_query_request_def
          sample_defs eval_defs)
  have v: "verifyIdToken failing_env ''good'' = Inr (Principal ''uid-1'')"
    by (simp add: sample_defs)
  have k: "openai_key failing_env = Some ''sk-test''" "google_apikey failing_env = Some ''AIza-test''"
    "google_cx failing_env = Some ''cx-test''"
    by (simp_all add: sample_defs)
  have c: "chat_completions_create failing_env ky u = Inl ''429 quota exceeded''" for ky u
    by (simp add: sample_defs)
  have g: "fetch_json failing_env u = Inl ''fetch failed''" for u
    by (simp add: sample_defs)
  have i: "json_imageBase64 (as_json label_request) = Some (JStr ''aGVsbG8='')"
    "json_imageBase64 number_image_request = Some (JNum 5)"
    by (simp_all add: as_json_def number_image_request_def sample_defs)
  have q: "json_query (as_json search_request) = Some (JStr ''Chateau X'')"
    "json_type (as_json search_request) = map_option JStr (Some ''red'')"
    "json_query object_query_request = Some (JObj [(''toString'', JNum 1)])"
    "json_type object_query_request = Some (JStr ''red'')"
    by (simp_all add: as_json_def object_query_request_def sample_defs)
  have en: "encodeURIComponent_throwing sample_runtime x = Inr (encodeURIComponent sample_env x)" for x
    by (simp add: sample_runtime_def)
  have ts: "template sample_runtime (JObj [(''toString'', JNum 1)]) =
      Inl ''Cannot convert object to primitive value''"
    by (simp add: template_def sample_runtime_def)
  have tk: "typeKeyword_json sample_runtime (wineType_json (Some (JStr ''red''))) = Inr ''red wine''"
    by (simp add: typeKeyword_json_def wineType_json_def template_def rose_def)
  have 1: "fst (analyzeWineLabel_json failing_env (as_json label_request)) =
     reply 500 (Json (JObj [(''error'', JStr ''Failed to analyze image''),
                            (''message'', JStr ''429 quota exceeded'')]))"
    by (simp add: analyzeWineLabel_json_post [OF l(1)] verifyAuth_token [OF b(1)] v k truthy_Some
          analyze_try_json_def i analyze_image_def c json_status_reply)
  have 2: "fst (analyzeWineLabel_json failing_env number_image_request) =
     reply 500 (Json (JObj [(''error'', JStr ''Failed to analyze image''),
                            (''message'', JStr ''imageBase64.startsWith is not a function'')]))"
    by (simp add: analyzeWineLabel_json_post [OF l(2)] verifyAuth_token [OF b(2)] v k truthy_Some
          analyze_try_json_def i json_status_reply startsWith_TypeError_def)
  have 3: "fst (searchWineImage_json sample_runtime failing_env (as_json search_request)) =
     reply 500 (Json (JObj [(''error'', JStr ''Failed to search images''),
                            (''message'', JStr ''fetch failed'')]))"
    by (simp add: searchWineImage_json_post [OF l(3)] verifyAuth_token [OF b(3)] v k truthy_Some
          search_try_json_def q searchQuery_json_typed search_url_json_def en search_fetch_def g
          json_status_reply del: option.map)
  have 4: "fst (searchWineImage_json sample_runtime failing_env object_query_request) =
     reply 500 (Json (JObj [(''error'', JStr ''Failed to search images''),
                            (''message'', JStr ''Cannot convert object to primitive value'')]))"
    by (simp add: searchWineImage_json_post [OF l(4)] verifyAuth_token [OF b(4)] v k truthy_Some
          search_try_json_def q searchQuery_json_def tk ts json_status_reply)
  from t [of "as_json label_request"] t [of number_image_request]
    t [of "as_json search_request"] t [of object_query_request]
    d 1 2 3 4
  show ?thesis by simp
qed

subsection \<open>C6: image search without credentials\<close>

text \<open>
  C6: an authenticated \<^verbatim>\<open>POST\<close> to \<^verbatim>\<open>searchWineImage\<close> on a deployment whose search API key
  or search-engine identifier is unset (or empty) is answered with status 200 and
  \<^verbatim>\<open>{success: true, imageUrl: null, message: "Google Image Search not configured"}\<close>; the
  trace holds only the call of the identity service, so no upstream call is made. The
  request's query is arbitrary: the check comes before the query is read.
\<close>

theorem search_not_configured:
  assumes "httpMethod req = ''POST''" and "bearer_token req = Some t" and "verifyIdToken e t = Inr p"
    and "\<not> truthy (google_apikey e) \<or> \<not> truthy (google_cx e)"
  shows "searchWineImage e req =
           (reply 200 (Json (JObj [(''success'', JBool True), (''imageUrl'', JNull),
                                   (''message'', JStr ''Google Image Search not configured'')])),
            [VerifyIdToken t]) \<and>
         filter upstream (snd (searchWineImage e req)) = []"
  using assms(4) by (simp add: searchWineImage_accepted [OF assms(1,2,3)])

theorem search_not_configured_witness:
  "\<not> truthy (google_cx (sample_env\<lparr>google_cx := None\<rparr>)) \<and>
   query (search_request\<lparr>query := None\<rparr>) = None \<and>
   searchWineImage (sample_env\<lparr>google_cx := None\<rparr>) (search_request\<lparr>query := None\<rparr>) =
     (\<lparr>statusCode = 200, headers = cors_headers,
       body = Json (JObj [(''success'', JBool True), (''imageUrl'', JNull),
                          (''message'', JStr ''Google Image Search not configured'')])\<rparr>,
      [VerifyIdToken ''good''])"
proof -
  let ?e = "sample_env\<lparr>google_cx := None\<rparr>"
  let ?r = "search_request\<lparr>query := None\<rparr>"
  have m: "httpMethod ?r = ''POST''" by (simp add: search_request_def)
  have b: "bearer_token ?r = Some ''good''" by (simp add: eval_defs search_request_def)
  have v: "verifyIdToken ?e ''good'' = Inr (Principal ''uid-1'')" by (simp add: sample_env_def)
  have c: "\<not> truthy (google_apikey ?e) \<or> \<not> truthy (google_cx ?e)" by (simp add: truthy_def)
  from search_not_configured [OF m b v c] show ?thesis
    by (simp add: reply_def truthy_def)
qed

subsection \<open>C7: the health endpoint\<close>

text \<open>
  C7: the health handler answers every request, whatever its method and headers, with
  status 200 and \<^verbatim>\<open>{status: "ok", openaiConfigured, googleConfigured}\<close>, and calls nothing
  (the trace is empty). \<^verbatim>\<open>openaiConfigured\<close> is true exactly when the model API key is set
  and not the empty string; \<^verbatim>\<open>googleConfigured\<close> is true exactly when that holds of both
  the search API key and the search-engine identifier.
\<close>

theorem health_reports_configuration:
  "health e req =
     (\<lparr>statusCode = 200,
       headers = [(''Access-Control-Allow-Origin'', ''*'')],
       body = Json (JObj
         [(''status'', JStr ''ok''),
          (''openaiConfigured'', JBool (openai_key e \<noteq> None \<and> openai_key e \<noteq> Some [])),
          (''googleConfigured'',
             JBool ((google_apikey e \<noteq> None \<and> google_apikey e \<noteq> Some []) \<and>
                    (google_cx e \<noteq> None \<and> google_cx e \<noteq> Some [])))])\<rparr>,
      [])"
  by (simp add: health_def Let_def set_header_def json_def new_response_def truthy_def
        getOpenAIKey_def getGoogleApiKey_def getGoogleCx_def split: option.splits)

theorem health_reports_configuration_witness:
  "health (sample_env\<lparr>google_cx := Some []\<rparr>) (preflight\<lparr>httpMethod := ''GET''\<rparr>) =
     (\<lparr>statusCode = 200,
       headers = [(''Access-Control-Allow-Origin'', ''*'')],
       body = Json (JObj
         [(''status'', JStr ''ok''), (''openaiConfigured'', JBool True),
          (''googleConfigured'', JBool False)])\<rparr>,
      [])"
  using health_reports_configuration [of "sample_env\<lparr>google_cx := Some []\<rparr>" "preflight\<lparr>httpMethod := ''GET''\<rparr>"]
  by (simp add: sample_defs)

subsection \<open>C8: a reply that does not parse\<close>

text \<open>
  C8: when neither the brace match of the model's reply nor the whole reply parses, an
  authenticated, configured \<^verbatim>\<open>POST\<close> with an image is answered with status 500 and
  \<^verbatim>\<open>{error: "Failed to parse wine data", raw: reply}\<close>.
\<close>

theorem unparseable_reply_is_reported:
  assumes "httpMethod req = ''POST''" and "bearer_token req = Some t" and "verifyIdToken e t = Inr p"
    and "openai_key e = Some k" and "k \<noteq> []"
    and "imageBase64 req = Some img" and "img \<noteq> []"
    and "chat_completions_create e k (image_url img) = Inr (Some content)"
    and "\<forall>m. jsonMatch content = Some m \<longrightarrow> JSON_parse e m = None"
    and "JSON_parse e content = None"
  shows "analyzeWineLabel e req =
           (reply 500 (Json (JObj [(''error'', JStr ''Failed to parse wine data''),
                                   (''raw'', JStr content)])),
            [VerifyIdToken t, ChatCompletion k (image_url img), ConsoleError ''JSON parse error:''])"
proof -
  from assms(9,10) have w: "wineData e (Some content) = None"
    by (simp add: wineData_def split: option.splits)
  from assms(4,5) have "analyzeWineLabel e req = analyze_try e req k (reply 200 NoBody) [VerifyIdToken t]"
    by (simp add: analyzeWineLabel_accepted [OF assms(1,2,3)] truthy_Some)
  with analyze_try_parse_failure [OF assms(6,7,8) w, of "reply 200 NoBody" "[VerifyIdToken t]"]
  show ?thesis by (simp add: json_status_reply)
qed

theorem unparseable_reply_is_reported_witness:
  "jsonMatch ''Sorry, {unreadable} label'' = Some ''{unreadable}'' \<and>
   JSON_parse confused_env ''{unreadable}'' = None \<and>
   JSON_parse confused_env ''Sorry, {unreadable} label'' = None \<and>
   analyzeWineLabel confused_env label_request =
     (reply 500 (Json (JObj [(''error'', JStr ''Failed to parse wine data''),
                             (''raw'', JStr ''Sorry, {unreadable} label'')])),
      [VerifyIdToken ''good'', ChatCompletion ''sk-test'' ''data:image/jpeg;base64,aGVsbG8='',
       ConsoleError ''JSON parse error:''])"
proof -
  have m: "jsonMatch ''Sorry, {unreadable} label'' = Some ''{unreadable}''"
    using jsonMatch_span [of "''Sorry, ''" "'' label''" "''unreadable''"] by simp
  have p1: "JSON_parse confused_env ''{unreadable}'' = None"
    by (simp add: sample_defs sample_object_def)
  have p2: "JSON_parse confused_env ''Sorry, {unreadable} label'' = None"
    by (simp add: sample_defs sample_object_def)
  from m p1 have a: "\<forall>m. jsonMatch ''Sorry, {unreadable} label'' = Some m \<longrightarrow> JSON_parse confused_env m = None"
    by simp
  have u: "image_url ''aGVsbG8='' = ''data:image/jpeg;base64,aGVsbG8=''"
    by (simp add: image_url_def startsWith_def)
  have r: "httpMethod label_request = ''POST''" "bearer_token label_request = Some ''good''"
    "verifyIdToken confused_env ''good'' = Inr (Principal ''uid-1'')"
    by (simp_all add: sample_defs eval_defs)
  have k: "openai_key confused_env = Some ''sk-test''" "''sk-test'' \<noteq> []"
    by (simp_all add: sample_defs)
  have i: "imageBase64 label_request = Some ''aGVsbG8=''" "''aGVsbG8='' \<noteq> []"
    by (simp_all add: sample_defs)
  have c: "chat_completions_create confused_env ''sk-test'' (image_url ''aGVsbG8='') =
      Inr (Some ''Sorry, {unreadable} label'')"
    by (simp add: sample_defs)
  from unparseable_reply_is_reported [OF r k i c a p2] m p1 p2 u show ?thesis by simp
qed

subsection \<open>C9: the span of the brace match\<close>

text \<open>
  C9: in a reply that holds an opening brace followed somewhere later by a closing brace,
  the match runs from the first opening brace of the reply to its last closing brace, and
  this substring is what the handler hands to \<^verbatim>\<open>JSON.parse\<close>: an authenticated, configured
  \<^verbatim>\<open>POST\<close> with an image is answered according to the parse of this substring. So when the
  text after an embedded object holds a closing brace, the parsed substring is the object
  together with that text up to its last closing brace.
\<close>

theorem brace_match_spans_first_to_last:
  assumes "content = a @ CHR ''{'' # b @ CHR ''}'' # c"
  shows "jsonMatch content = Some (substring content (first_open content) (last_close content + 1)) \<and>
         wineData e (Some content) =
           JSON_parse e (substring content (first_open content) (last_close content + 1)) \<and>
         (\<forall>pre mid post.
            content = pre @ (CHR ''{'' # mid @ ''}'') @ post \<and> CHR ''{'' \<notin> set pre \<and> CHR ''}'' \<in> set post \<longrightarrow>
            (\<exists>p1 p2. post = p1 @ CHR ''}'' # p2 \<and> CHR ''}'' \<notin> set p2 \<and>
               jsonMatch content = Some ((CHR ''{'' # mid @ ''}'') @ p1 @ ''}'') \<and>
               wineData e (Some content) = JSON_parse e ((CHR ''{'' # mid @ ''}'') @ p1 @ ''}''))) \<and>
         (httpMethod req = ''POST'' \<and> bearer_token req = Some t \<and> verifyIdToken e t = Inr p \<and>
          openai_key e = Some k \<and> k \<noteq> [] \<and> imageBase64 req = Some img \<and> img \<noteq> [] \<and>
          chat_completions_create e k (image_url img) = Inr (Some content) \<longrightarrow>
          analyzeWineLabel e req =
            (case JSON_parse e (substring content (first_open content) (last_close content + 1)) of
               None \<Rightarrow>
                 (reply 500 (Json (JObj [(''error'', JStr ''Failed to parse wine data''),
                                         (''raw'', JStr content)])),
                  [VerifyIdToken t, ChatCompletion k (image_url img), ConsoleError ''JSON parse error:''])
             | Some d \<Rightarrow>
                 (reply 200 (Json (JObj [(''success'', JBool True), (''data'', d)])),
                  [VerifyIdToken t, ChatCompletion k (image_url img)])))"
proof (intro conjI allI impI)
  from jsonMatch_cases [of content] assms
  obtain pre mid post where c: "content = pre @ CHR ''{'' # mid @ CHR ''}'' # post"
    and p: "CHR ''{'' \<notin> set pre" "CHR ''}'' \<notin> set post"
    and m: "jsonMatch content = Some (CHR ''{'' # mid @ ''}'')"
    by blast
  from span_positions [OF p c] m
  show j: "jsonMatch content = Some (substring content (first_open content) (last_close content + 1))"
    by simp
  then show w: "wineData e (Some content) =
           JSON_parse e (substring content (first_open content) (last_close content + 1))"
    by (simp add: wineData_def)
  assume a: "httpMethod req = ''POST'' \<and> bearer_token req = Some t \<and> verifyIdToken e t = Inr p \<and>
          openai_key e = Some k \<and> k \<noteq> [] \<and> imageBase64 req = Some img \<and> img \<noteq> [] \<and>
          chat_completions_create e k (image_url img) = Inr (Some content)"
  then have r: "httpMethod req = ''POST''" "bearer_token req = Some t" "verifyIdToken e t = Inr p"
    and k: "openai_key e = Some k" "k \<noteq> []"
    and i: "imageBase64 req = Some img" "img \<noteq> []"
    and ch: "chat_completions_create e k (image_url img) = Inr (Some content)"
    by simp_all
  from k have s: "analyzeWineLabel e req = analyze_try e req k (reply 200 NoBody) [VerifyIdToken t]"
    by (simp add: analyzeWineLabel_accepted [OF r] truthy_Some)
  show "analyzeWineLabel e req =
            (case JSON_parse e (substring content (first_open content) (last_close content + 1)) of
               None \<Rightarrow>
                 (reply 500 (Json (JObj [(''error'', JStr ''Failed to parse wine data''),
                                         (''raw'', JStr content)])),
                  [VerifyIdToken t, ChatCompletion k (image_url img), ConsoleError ''JSON parse error:''])
             | Some d \<Rightarrow>
                 (reply 200 (Json (JObj [(''success'', JBool True), (''data'', d)])),
                  [VerifyIdToken t, ChatCompletion k (image_url img)]))"
  proof (cases "wineData e (Some content)")
    case None
    from analyze_try_parse_failure [OF i ch None, of "reply 200 NoBody" "[VerifyIdToken t]"] s None w
    show ?thesis by (simp add: json_status_reply)
  next
    case (Some d)
    from analyze_try_success [OF i ch Some, of "reply 200 NoBody" "[VerifyIdToken t]"] s Some w
    show ?thesis by (simp add: json_reply)
  qed
next
  fix pre mid post
  assume a: "content = pre @ (CHR ''{'' # mid @ ''}'') @ post \<and> CHR ''{'' \<notin> set pre \<and> CHR ''}'' \<in> set post"
  then have "CHR ''}'' \<in> set post" by simp
  from split_list_last [OF this]
  obtain p1 p2 where post: "post = p1 @ CHR ''}'' # p2" and p2: "CHR ''}'' \<notin> set p2" by blast
  from a have pre: "CHR ''{'' \<notin> set pre" by simp
  from a post have "content = pre @ CHR ''{'' # (mid @ CHR ''}'' # p1) @ CHR ''}'' # p2" by simp
  with jsonMatch_span [OF pre p2, of "mid @ CHR ''}'' # p1"]
  have j: "jsonMatch content = Some ((CHR ''{'' # mid @ ''}'') @ p1 @ ''}'')" by simp
  then have "wineData e (Some content) = JSON_parse e ((CHR ''{'' # mid @ ''}'') @ p1 @ ''}'')"
    by (simp add: wineData_def)
  with post p2 j
  show "\<exists>p1 p2. post = p1 @ CHR ''}'' # p2 \<and> CHR ''}'' \<notin> set p2 \<and>
               jsonMatch content = Some ((CHR ''{'' # mid @ ''}'') @ p1 @ ''}'') \<and>
               wineData e (Some content) = JSON_parse e ((CHR ''{'' # mid @ ''}'') @ p1 @ ''}'')"
    by blast
qed

theorem brace_match_spans_first_to_last_witness:
  "''Sure: {a} and } more'' = ''Sure: '' @ CHR ''{'' # ''a'' @ CHR ''}'' # '' and } more'' \<and>
   first_open ''Sure: {a} and } more'' = 6 \<and>
   last_close ''Sure: {a} and } more'' = 14 \<and>
   jsonMatch ''Sure: {a} and } more'' = Some ''{a} and }'' \<and>
   wineData sample_env (Some ''Sure: {a} and } more'') = JSON_parse sample_env ''{a} and }'' \<and>
   analyzeWineLabel trailing_env label_request =
     (reply 500 (Json (JObj [(''error'', JStr ''Failed to parse wine data''),
                             (''raw'', JStr ''Sure: {a} and } more'')])),
      [VerifyIdToken ''good'', ChatCompletion ''sk-test'' ''data:image/jpeg;base64,aGVsbG8='',
       ConsoleError ''JSON parse error:''])"
proof -
  let ?c = "''Sure: {a} and } more''"
  have d: "?c = ''Sure: '' @ CHR ''{'' # ''a'' @ CHR ''}'' # '' and } more''"
    by simp
  have f: "first_open ?c = 6" by (simp add: first_open_def)
  have l: "last_close ?c = 14" by (simp add: last_close_def)
  have s: "substring ?c 6 (14 + 1) = ''{a} and }''" by (simp add: substring_def)
  have h: "httpMethod label_request = ''POST'' \<and> bearer_token label_request = Some ''good'' \<and>
      verifyIdToken trailing_env ''good'' = Inr (Principal ''uid-1'') \<and>
      openai_key trailing_env = Some ''sk-test'' \<and> ''sk-test'' \<noteq> [] \<and>
      imageBase64 label_request = Some ''aGVsbG8='' \<and> ''aGVsbG8='' \<noteq> [] \<and>
      chat_completions_create trailing_env ''sk-test'' (image_url ''aGVsbG8='') = Inr (Some ?c)"
    by (simp add: sample_defs eval_defs trailing_env_def)
  have u: "image_url ''aGVsbG8='' = ''data:image/jpeg;base64,aGVsbG8=''"
    by (simp add: image_url_def startsWith_def)
  have pa: "JSON_parse trailing_env ''{a} and }'' = None"
    by (simp add: sample_defs trailing_env_def sample_object_def)
  note t = brace_match_spans_first_to_last [OF d]
  from t [of sample_env] f l s have 1: "jsonMatch ?c = Some ''{a} and }''"
    and 2: "wineData sample_env (Some ?c) = JSON_parse sample_env ''{a} and }''"
    by simp_all
  from t [of trailing_env label_request "''good''" "Principal ''uid-1''" "''sk-test''" "''aGVsbG8=''"] h
  have "analyzeWineLabel trailing_env label_request =
            (case JSON_parse trailing_env (substring ?c (first_open ?c) (last_close ?c + 1)) of
               None \<Rightarrow>
                 (reply 500 (Json (JObj [(''error'', JStr ''Failed to parse wine data''),
                                         (''raw'', JStr ?c)])),
                  [VerifyIdToken ''good'', ChatCompletion ''sk-test'' (image_url ''aGVsbG8=''),
                   ConsoleError ''JSON parse error:''])
             | Some d \<Rightarrow>
                 (reply 200 (Json (JObj [(''success'', JBool True), (''data'', d)])),
                  [VerifyIdToken ''good'', ChatCompletion ''sk-test'' (image_url ''aGVsbG8='')]))"
    by blast
  with f l s pa u have 3: "analyzeWineLabel trailing_env label_request =
     (reply 500 (Json (JObj [(''error'', JStr ''Failed to parse wine data''),
                             (''raw'', JStr ?c)])),
      [VerifyIdToken ''good'', ChatCompletion ''sk-test'' ''data:image/jpeg;base64,aGVsbG8='',
       ConsoleError ''JSON parse error:''])"
    by simp
  from d f l 1 2 3 show ?thesis by simp
qed

subsection \<open>C10: a header with an empty token\<close>

text \<open>
  C10: the header \<^verbatim>\<open>Bearer \<close> passes the prefix check, the extracted token is the empty
  string, it is submitted to the identity service, and when the service rejects it the
  answer is 401 with \<^verbatim>\<open>{error: "Unauthorized - Invalid token"}\<close>, both from \<^verbatim>\<open>verifyAuth\<close>
  and from the two protected endpoints on a \<^verbatim>\<open>POST\<close>.
\<close>

theorem empty_bearer_token_is_invalid_token:
  assumes "authorization req = Some ''Bearer ''" and "verifyIdToken e [] = Inl err"
  shows "startsWith ''Bearer '' ''Bearer '' \<and> idToken ''Bearer '' = Some [] \<and>
         verifyAuth e req res =
           (None, json (JObj [(''error'', JStr ''Unauthorized - Invalid token'')]) (status 401 res),
            [VerifyIdToken [], ConsoleError ''Auth error:'']) \<and>
         (httpMethod req = ''POST'' \<longrightarrow>
            analyzeWineLabel e req =
              (reply 401 (Json (JObj [(''error'', JStr ''Unauthorized - Invalid token'')])),
               [VerifyIdToken [], ConsoleError ''Auth error:'']) \<and>
            searchWineImage e req =
              (reply 401 (Json (JObj [(''error'', JStr ''Unauthorized - Invalid token'')])),
               [VerifyIdToken [], ConsoleError ''Auth error:'']))"
proof -
  have s: "startsWith ''Bearer '' ''Bearer ''" by (simp add: startsWith_def)
  have b: "bearer_token req = Some []"
    using assms(1) s by (simp add: bearer_token_def idToken_Bearer_only)
  from verifyAuth_token [OF b, of e res] assms(2)
  have "verifyAuth e req res =
          (None, json (JObj [(''error'', JStr ''Unauthorized - Invalid token'')]) (status 401 res),
           [VerifyIdToken [], ConsoleError ''Auth error:''])"
    by simp
  with s idToken_Bearer_only analyzeWineLabel_rejected [OF _ b assms(2)]
    searchWineImage_rejected [OF _ b assms(2)]
  show ?thesis by blast
qed

theorem empty_bearer_token_is_invalid_token_witness:
  "authorization (label_request\<lparr>authorization := Some ''Bearer ''\<rparr>) = Some ''Bearer '' \<and>
   verifyIdToken sample_env [] = Inl ''invalid token'' \<and>
   analyzeWineLabel sample_env (label_request\<lparr>authorization := Some ''Bearer ''\<rparr>) =
     (reply 401 (Json (JObj [(''error'', JStr ''Unauthorized - Invalid token'')])),
      [VerifyIdToken [], ConsoleError ''Auth error:''])"
proof -
  let ?r = "label_request\<lparr>authorization := Some ''Bearer ''\<rparr>"
  have a: "authorization ?r = Some ''Bearer ''" by simp
  have v: "verifyIdToken sample_env [] = Inl ''invalid token''" by (simp add: sample_env_def)
  have m: "httpMethod ?r = ''POST''" by (simp add: label_request_def)
  from empty_bearer_token_is_invalid_token [OF a v] m a v show ?thesis by blast
qed

end
